theory Spec2Isabelle
  imports Complex_Main "HOL-Library.Word" "HOL-Library.Sublist"
begin

section \<open>Strings\<close>

text \<open>
  JavaScript strings are modelled as \<^typ>\<open>string\<close>, one \<^typ>\<open>char\<close> per code unit, for
  strings whose code units are below 256. On these, \<open>toLowerCase\<close> folds \<open>A\<close>..\<open>Z\<close> and the
  capital letters \<open>U+00C0\<close>..\<open>U+00DE\<close> (the sign \<open>U+00D7\<close> is no letter), the line
  terminators are line feed and carriage return, and white space is the ASCII white space
  and \<open>U+00A0\<close>.
\<close>

definition lowerChar :: "char \<Rightarrow> char" where
  "lowerChar c =
     (let n = (of_char c :: nat) in
      if (65 \<le> n \<and> n \<le> 90) \<or> (192 \<le> n \<and> n \<le> 222 \<and> n \<noteq> 215)
      then char_of (n + 32) else c)"

definition toLowerCase :: "string \<Rightarrow> string" where
  "toLowerCase s = map lowerChar s"

text \<open>\<open>s.startsWith(p)\<close>.\<close>

definition startsWith :: "string \<Rightarrow> string \<Rightarrow> bool" where
  "startsWith s p = (take (length p) s = p)"

text \<open>\<open>s.includes(p)\<close>: \<open>p\<close> occurs at some position of \<open>s\<close>.\<close>

fun includes_str :: "string \<Rightarrow> string \<Rightarrow> bool" where
  "includes_str [] p = (p = [])"
| "includes_str (c # cs) p = (startsWith (c # cs) p \<or> includes_str cs p)"

text \<open>
  \<open>s.split(sep)\<close> for a one-character separator: the pieces between the separators, in
  order; the result is never empty (\<open>''''.split(sep)\<close> is \<open>['''']\<close>).
\<close>

fun split_str :: "char \<Rightarrow> string \<Rightarrow> string list" where
  "split_str sep [] = [[]]"
| "split_str sep (c # cs) =
     (if c = sep then [] # split_str sep cs
      else (case split_str sep cs of [] \<Rightarrow> [[c]] | p # ps \<Rightarrow> (c # p) # ps))"

text \<open>\<open>parts.join(sep)\<close> for a one-character separator.\<close>

fun join_str :: "char \<Rightarrow> string list \<Rightarrow> string" where
  "join_str sep [] = []"
| "join_str sep [p] = p"
| "join_str sep (p # q # ps) = p @ sep # join_str sep (q # ps)"

text \<open>\<open>xs[i]\<close>: \<open>undefined\<close> (here \<open>None\<close>) out of range.\<close>

definition index :: "'a list \<Rightarrow> nat \<Rightarrow> 'a option" where
  "index xs i = (if i < length xs then Some (xs ! i) else None)"

section \<open>Binary sniffer\<close>

type_synonym byte = "8 word"

datatype error = RangeError | TypeError | NetworkError

text \<open>
  A \<open>DataView\<close> over the whole buffer. Each getter throws \<open>RangeError\<close> when the read
  would pass the end of the buffer; multi-byte reads are big-endian (no \<open>littleEndian\<close>
  argument is ever given).
\<close>

definition getUint8 :: "byte list \<Rightarrow> nat \<Rightarrow> error + nat" where
  "getUint8 view i = (if i + 1 \<le> length view then Inr (unat (view ! i)) else Inl RangeError)"

definition getUint16 :: "byte list \<Rightarrow> nat \<Rightarrow> error + nat" where
  "getUint16 view i =
     (if i + 2 \<le> length view
      then Inr (unat (view ! i) * 256 + unat (view ! (i + 1)))
      else Inl RangeError)"

definition getUint32 :: "byte list \<Rightarrow> nat \<Rightarrow> error + nat" where
  "getUint32 view i =
     (if i + 4 \<le> length view
      then Inr (((unat (view ! i) * 256 + unat (view ! (i + 1))) * 256
                 + unat (view ! (i + 2))) * 256 + unat (view ! (i + 3)))
      else Inl RangeError)"

text \<open>
  Conditions that may throw. \<open>isEq r v\<close> is \<open>r === v\<close>; \<open>a andAlso b\<close> is \<open>a && b\<close> and
  \<open>a orElse b\<close> is \<open>a || b\<close>, which evaluate (and so can throw in) the right operand only
  when the left one does not decide; \<open>cond c t e\<close> is \<open>if (c) t else e\<close>.
\<close>

definition isEq :: "error + nat \<Rightarrow> nat \<Rightarrow> error + bool" where
  "isEq r v = (case r of Inl e \<Rightarrow> Inl e | Inr x \<Rightarrow> Inr (x = v))"

definition andAlso :: "error + bool \<Rightarrow> error + bool \<Rightarrow> error + bool" where
  "andAlso a b = (case a of Inl e \<Rightarrow> Inl e | Inr x \<Rightarrow> if x then b else Inr False)"

definition orElse :: "error + bool \<Rightarrow> error + bool \<Rightarrow> error + bool" where
  "orElse a b = (case a of Inl e \<Rightarrow> Inl e | Inr x \<Rightarrow> if x then Inr True else b)"

definition cond :: "error + bool \<Rightarrow> error + 'a \<Rightarrow> error + 'a \<Rightarrow> error + 'a" where
  "cond c t e = (case c of Inl x \<Rightarrow> Inl x | Inr b \<Rightarrow> if b then t else e)"

definition len_ge :: "byte list \<Rightarrow> nat \<Rightarrow> error + bool" where
  "len_ge view n = Inr (n \<le> length view)"

text \<open>The \<open>ftyp\<close> blocks of the sniffer: both brands are read before either is compared.\<close>

definition ftypBrand :: "byte list \<Rightarrow> nat \<Rightarrow> nat \<Rightarrow> error + bool" where
  "ftypBrand view b1 b2 =
     (case getUint32 view 8 of Inl e \<Rightarrow> Inl e | Inr brand1 \<Rightarrow>
      (case getUint32 view 12 of Inl e \<Rightarrow> Inl e | Inr brand2 \<Rightarrow>
         Inr (brand1 = b1 \<or> brand1 = b2 \<or> brand2 = b1 \<or> brand2 = b2)))"

text \<open>
  The conditions of the nine checks, as the source writes them. (After the JPEG condition
  the source also looks for the end marker \<open>FF D9\<close>, reading in range, and returns \<open>jpg\<close>
  whether or not it is there.)
\<close>

definition jpgCheck :: "byte list \<Rightarrow> error + bool" where
  "jpgCheck view =
     andAlso (len_ge view 2) (andAlso (isEq (getUint8 view 0) 0xFF) (isEq (getUint8 view 1) 0xD8))"

definition pngCheck :: "byte list \<Rightarrow> error + bool" where
  "pngCheck view =
     andAlso (len_ge view 8)
       (andAlso (isEq (getUint8 view 0) 0x89) (andAlso (isEq (getUint8 view 1) 0x50)
       (andAlso (isEq (getUint8 view 2) 0x4E) (andAlso (isEq (getUint8 view 3) 0x47)
       (andAlso (isEq (getUint8 view 4) 0x0D) (andAlso (isEq (getUint8 view 5) 0x0A)
       (andAlso (isEq (getUint8 view 6) 0x1A) (isEq (getUint8 view 7) 0x0A))))))))"

definition gifCheck :: "byte list \<Rightarrow> error + bool" where
  "gifCheck view =
     andAlso (len_ge view 6)
       (orElse
         (andAlso (isEq (getUint8 view 0) 0x47)
           (andAlso (isEq (getUint8 view 1) 0x49) (isEq (getUint8 view 2) 0x46)))
         (andAlso (isEq (getUint8 view 0) 0x47)
           (andAlso (isEq (getUint8 view 1) 0x49) (isEq (getUint8 view 2) 0x66))))"

definition bmpCheck :: "byte list \<Rightarrow> error + bool" where
  "bmpCheck view =
     andAlso (len_ge view 2) (andAlso (isEq (getUint8 view 0) 0x42) (isEq (getUint8 view 1) 0x4D))"

definition webpCheck :: "byte list \<Rightarrow> error + bool" where
  "webpCheck view =
     andAlso (len_ge view 12)
       (andAlso (isEq (getUint8 view 0) 0x52) (andAlso (isEq (getUint8 view 1) 0x49)
       (andAlso (isEq (getUint8 view 2) 0x46) (andAlso (isEq (getUint8 view 3) 0x46)
       (andAlso (isEq (getUint8 view 8) 0x57) (andAlso (isEq (getUint8 view 9) 0x45)
       (andAlso (isEq (getUint8 view 10) 0x42) (isEq (getUint8 view 11) 0x50))))))))"

definition avifCheck :: "byte list \<Rightarrow> error + bool" where
  "avifCheck view =
     andAlso (len_ge view 12)
       (andAlso (isEq (getUint32 view 4) 0x66747970) (ftypBrand view 0x61766966 0x61766973))"

definition icoCheck :: "byte list \<Rightarrow> error + bool" where
  "icoCheck view =
     andAlso (len_ge view 6) (andAlso (isEq (getUint16 view 0) 0) (isEq (getUint16 view 2) 1))"

definition tiffCheck :: "byte list \<Rightarrow> error + bool" where
  "tiffCheck view =
     andAlso (len_ge view 4)
       (orElse
         (andAlso (isEq (getUint16 view 0) 0x4D4D) (isEq (getUint16 view 2) 42))
         (andAlso (isEq (getUint16 view 0) 0x4949) (isEq (getUint16 view 2) 42)))"

definition heicCheck :: "byte list \<Rightarrow> error + bool" where
  "heicCheck view =
     andAlso (len_ge view 12)
       (andAlso (isEq (getUint32 view 4) 0x66747970) (ftypBrand view 0x68656963 0x68656966))"

text \<open>
  The body of the \<open>try\<close> block of \<open>detectImageTypeByMagicNumber\<close>, after the empty check:
  the checks in the order of the source, the first that holds returning its tag.
\<close>

definition sniff :: "byte list \<Rightarrow> error + string" where
  "sniff view =
     cond (jpgCheck view) (Inr ''jpg'')
    (cond (pngCheck view) (Inr ''png'')
    (cond (gifCheck view) (Inr ''gif'')
    (cond (bmpCheck view) (Inr ''bmp'')
    (cond (webpCheck view) (Inr ''webp'')
    (cond (avifCheck view) (Inr ''avif'')
    (cond (icoCheck view) (Inr ''ico'')
    (cond (tiffCheck view) (Inr ''tiff'')
    (cond (heicCheck view) (Inr ''heic'')
       (Inr ''unknown'')))))))))"

text \<open>
  \<open>detectImageTypeByMagicNumber\<close>: the empty buffer is \<open>unknown\<close>, and the \<open>catch\<close> turns
  every exception of the body into \<open>unknown\<close>.
\<close>

definition detectImageTypeByMagicNumber :: "byte list \<Rightarrow> string" where
  "detectImageTypeByMagicNumber buffer =
     (if length buffer = 0 then ''unknown''
      else (case sniff buffer of Inl e \<Rightarrow> ''unknown'' | Inr t \<Rightarrow> t))"

text \<open>The tags the sniffer can return.\<close>

definition imageTags :: "string list" where
  "imageTags =
     [''jpg'', ''png'', ''gif'', ''bmp'', ''webp'', ''avif'', ''ico'', ''tiff'', ''heic'', ''unknown'']"

section \<open>Image records and the coordinated refinement\<close>

text \<open>
  One record of the list that \<open>extractImages\<close> builds. A width or height of \<open>0\<close> stands for
  an unknown dimension.
\<close>

record image_record =
  src :: string
  alt :: string
  width :: int
  height :: int
  type :: string
  elementType :: string

text \<open>A \<open>{width, height}\<close> object, as the dimension functions return it.\<close>

type_synonym dims = "int \<times> int"

text \<open>An entry of the array that \<open>Promise.allSettled\<close> resolves to.\<close>

datatype 'a settled = Fulfilled 'a | Rejected

text \<open>
  \<open>getImageInfoCoordinated\<close>, given how its two promises settle: \<open>typeByFetch\<close> is the
  outcome of \<open>getImageTypeByFetch(url)\<close> and \<open>svgDimensions\<close> that of
  \<open>getSvgDimensionsFromUrl(url)\<close>, which is only started for a record of type \<open>svg\<close>.
\<close>

definition getImageInfoCoordinated ::
  "image_record \<Rightarrow> string settled \<Rightarrow> dims settled \<Rightarrow> image_record" where
  "getImageInfoCoordinated initialImage typeByFetch svgDimensions =
     (let detectedType = typeByFetch;
          dimensions = (if type initialImage = ''svg'' then svgDimensions else Fulfilled (0, 0));
          updatedImage = initialImage;
          updatedImage =
            (case detectedType of
               Fulfilled v \<Rightarrow> if v \<noteq> ''unknown'' then updatedImage\<lparr>type := v\<rparr> else updatedImage
             | Rejected \<Rightarrow> updatedImage);
          updatedImage =
            (case dimensions of
               Fulfilled (w, h) \<Rightarrow>
                 if w > 0 \<and> h > 0 then updatedImage\<lparr>width := w, height := h\<rparr> else updatedImage
             | Rejected \<Rightarrow> updatedImage)
      in updatedImage)"

section \<open>The final pass of \<open>extractImages\<close>: size filter, normalization, deduplication\<close>

definition minWidth :: int where "minWidth = 10"
definition minHeight :: int where "minHeight = 10"

text \<open>The condition under which the final loop keeps a record.\<close>

definition sizeKept :: "image_record \<Rightarrow> bool" where
  "sizeKept img =
     ((width img \<ge> minWidth \<or> height img \<ge> minHeight)
      \<or> (width img = 0 \<and> height img = 0))"

definition trackingParams :: "string list" where
  "trackingParams =
     [''utm_source'', ''utm_medium'', ''utm_campaign'', ''utm_term'', ''utm_content'',
      ''gclid'', ''fbclid'', ''msclkid'', ''mc_eid'', ''cid'', ''pid'']"

text \<open>
  The predicate of \<open>params.split('&').filter(...)\<close>: the key is the text before the first
  \<open>=\<close>, lower-cased (\<open>split\<close> never returns an empty array, so \<open>[0]\<close> exists).
\<close>

definition keptParam :: "string \<Rightarrow> bool" where
  "keptParam param =
     (let key = toLowerCase (hd (split_str CHR ''='' param)) in key \<notin> set trackingParams)"

text \<open>
  The normalization of a record's source. Under the \<open>includes('?')\<close> guard the array
  \<open>urlParts\<close> has at least two elements, so both reads are in range; the text after a second
  \<open>?\<close> is dropped, as in the source.
\<close>

definition normalizeUrl :: "string \<Rightarrow> string" where
  "normalizeUrl url =
     (if includes_str url ''?'' then
        (let urlParts = split_str CHR ''?'' url;
             baseUrl = urlParts ! 0;
             params = urlParts ! 1;
             paramPairs = filter keptParam (split_str CHR ''&'' params)
         in if length paramPairs > 0 then baseUrl @ ''?'' @ join_str CHR ''&'' paramPairs
            else baseUrl)
      else url)"

text \<open>
  The final \<open>images.forEach\<close>, with the set \<open>uniqueUrls\<close> and the array \<open>filteredImages\<close>
  that it updates passed along.
\<close>

fun filterImages ::
  "image_record list \<Rightarrow> string set \<Rightarrow> image_record list \<Rightarrow> image_record list" where
  "filterImages [] uniqueUrls filteredImages = filteredImages"
| "filterImages (img # images) uniqueUrls filteredImages =
     (if sizeKept img then
        (let normalizedUrl = normalizeUrl (src img) in
         if normalizedUrl \<notin> uniqueUrls
         then filterImages images (insert normalizedUrl uniqueUrls)
                (filteredImages @ [img\<lparr>src := normalizedUrl\<rparr>])
         else filterImages images uniqueUrls filteredImages)
      else filterImages images uniqueUrls filteredImages)"

text \<open>What \<open>extractImages\<close> returns for the records it has collected.\<close>

definition finalPass :: "image_record list \<Rightarrow> image_record list" where
  "finalPass images = filterImages images {} []"

section \<open>URL heuristic classifier\<close>

definition isLineTerminator :: "char \<Rightarrow> bool" where
  "isLineTerminator c = (c = CHR 0x0A \<or> c = CHR 0x0D)"

text \<open>
  The lazy group of \<open>/data:image\/(.*?);/\<close> once \<open>data:image/\<close> has matched: the text up to
  the first \<open>;\<close>, which no line terminator may precede.
\<close>

definition lazyUntilSemicolon :: "string \<Rightarrow> string option" where
  "lazyUntilSemicolon rest =
     (let cap = takeWhile (\<lambda>c. c \<noteq> CHR '';'' \<and> \<not> isLineTerminator c) rest
      in if startsWith (drop (length cap) rest) '';'' then Some cap else None)"

text \<open>\<open>url.match(/data:image\/(.*?);/)\<close>: group 1 of the leftmost match, if there is one.\<close>

fun matchDataImage :: "string \<Rightarrow> string option" where
  "matchDataImage [] = None"
| "matchDataImage (c # cs) =
     (case (if startsWith (c # cs) ''data:image/''
            then lazyUntilSemicolon (drop (length ''data:image/'') (c # cs)) else None) of
        Some cap \<Rightarrow> Some cap
      | None \<Rightarrow> matchDataImage cs)"

text \<open>
  \<open>cleanUrl.match(/\.([^.]+)$/)\<close>: the text after the last dot, when there is a dot and
  that text is not empty.
\<close>

definition matchExtension :: "string \<Rightarrow> string option" where
  "matchExtension cleanUrl =
     (let tail = rev (takeWhile (\<lambda>c. c \<noteq> CHR ''.'') (rev cleanUrl))
      in if CHR ''.'' \<in> set cleanUrl \<and> tail \<noteq> [] then Some tail else None)"

text \<open>
  The branches of \<open>getImageType\<close> after the data-URI case. Each returns \<open>Some\<close> tag where
  the source returns, and \<open>None\<close> where the source falls through to the next step.
\<close>

definition keywordScan :: "string \<Rightarrow> string option" where
  "keywordScan urlLower =
     (if includes_str urlLower ''jpg'' \<or> includes_str urlLower ''jpeg'' then Some ''jpg''
      else if includes_str urlLower ''png'' then Some ''png''
      else if includes_str urlLower ''svg'' then Some ''svg''
      else if includes_str urlLower ''webp'' then Some ''webp''
      else if includes_str urlLower ''gif'' then Some ''gif''
      else if includes_str urlLower ''bmp'' then Some ''bmp''
      else if includes_str urlLower ''ico'' then Some ''ico''
      else if includes_str urlLower ''tiff'' \<or> includes_str urlLower ''tif'' then Some ''tiff''
      else if includes_str urlLower ''apng'' then Some ''apng''
      else if includes_str urlLower ''avif'' then Some ''avif''
      else None)"

definition extensionCheck :: "string \<Rightarrow> string option" where
  "extensionCheck ext =
     (let extension = toLowerCase ext in
      if extension = ''jpeg'' then Some ''jpg''
      else if extension \<in> set [''jpg'', ''png'', ''svg'', ''webp'', ''gif'', ''bmp'', ''ico'',
                                 ''tiff'', ''tif'', ''apng'', ''avif'']
      then Some extension else None)"

text \<open>\<open>urlParams\<close> is \<open>url.split('?')[1]\<close>: \<open>undefined\<close> and the empty string are falsy.\<close>

definition paramScan :: "string option \<Rightarrow> string option" where
  "paramScan urlParams =
     (case urlParams of
        None \<Rightarrow> None
      | Some ps \<Rightarrow>
          if ps = [] then None
          else let paramsLower = toLowerCase ps in
            if includes_str paramsLower ''format=png'' \<or> includes_str paramsLower ''type=png''
            then Some ''png''
            else if includes_str paramsLower ''format=jpg'' \<or> includes_str paramsLower ''type=jpg''
              \<or> includes_str paramsLower ''format=jpeg'' \<or> includes_str paramsLower ''type=jpeg''
            then Some ''jpg''
            else if includes_str paramsLower ''format=webp'' \<or> includes_str paramsLower ''type=webp''
            then Some ''webp''
            else if includes_str paramsLower ''format=gif'' \<or> includes_str paramsLower ''type=gif''
            then Some ''gif''
            else if includes_str paramsLower ''format=avif'' \<or> includes_str paramsLower ''type=avif''
            then Some ''avif''
            else if includes_str paramsLower ''format=heic'' \<or> includes_str paramsLower ''type=heic''
            then Some ''heic''
            else if includes_str paramsLower ''format=heif'' \<or> includes_str paramsLower ''type=heif''
            then Some ''heic''
            else None)"

definition pathScan :: "string \<Rightarrow> string option" where
  "pathScan urlLower =
     (if includes_str urlLower ''/png/'' \<or> includes_str urlLower ''/images/png/''
         \<or> includes_str urlLower ''/img/png/''
      then Some ''png''
      else if includes_str urlLower ''/jpg/'' \<or> includes_str urlLower ''/images/jpg/''
         \<or> includes_str urlLower ''/img/jpg/'' \<or> includes_str urlLower ''/jpeg/''
         \<or> includes_str urlLower ''/images/jpeg/'' \<or> includes_str urlLower ''/img/jpeg/''
      then Some ''jpg''
      else None)"

definition mimeScan :: "string \<Rightarrow> string" where
  "mimeScan urlLower =
     (if includes_str urlLower ''image/jpeg'' \<or> includes_str urlLower ''image/jpg'' then ''jpg''
      else if includes_str urlLower ''image/png'' then ''png''
      else if includes_str urlLower ''image/svg'' then ''svg''
      else if includes_str urlLower ''image/webp'' then ''webp''
      else if includes_str urlLower ''image/gif'' then ''gif''
      else if includes_str urlLower ''image/bmp'' then ''bmp''
      else if includes_str urlLower ''image/avif'' then ''avif''
      else if includes_str urlLower ''image/tiff'' then ''tiff''
      else if includes_str urlLower ''image/ico'' then ''ico''
      else ''unknown'')"

text \<open>\<open>x ?? y\<close> for the steps above: the first step that returns decides.\<close>

definition orNext :: "'a option \<Rightarrow> 'a option \<Rightarrow> 'a option" where
  "orNext a b = (case a of Some x \<Rightarrow> Some x | None \<Rightarrow> b)"

text \<open>\<open>url.split('?')[0].split('#')[0]\<close>; \<open>split\<close> never returns an empty array.\<close>

definition cleanUrlOf :: "string \<Rightarrow> string" where
  "cleanUrlOf url = hd (split_str CHR ''#'' (hd (split_str CHR ''?'' url)))"

definition getImageType :: "string \<Rightarrow> string" where
  "getImageType url =
     (if startsWith url ''data:image/'' then
        (case matchDataImage url of Some typeMatch \<Rightarrow> typeMatch | None \<Rightarrow> ''base64'')
      else
        (let cleanUrl = cleanUrlOf url;
             extension = (case matchExtension cleanUrl of
                            Some e \<Rightarrow> toLowerCase e | None \<Rightarrow> []);
             urlLower = toLowerCase url;
             urlParams = index (split_str CHR ''?'' url) 1
         in case orNext (if extension = [] then keywordScan urlLower
                         else extensionCheck extension)
                 (orNext (paramScan urlParams) (pathScan urlLower)) of
              Some t \<Rightarrow> t
            | None \<Rightarrow> mimeScan urlLower))"

text \<open>
  The order of the keyword step written as a table, for comparison with \<open>keywordScan\<close>:
  each row gives the keywords of one format and its tag, and \<open>firstKeywordHit\<close> returns
  the tag of the first row one of whose keywords occurs in the string. \<open>keywordPriority\<close>
  is the order of the source, \<open>listedPriority\<close> the order in which the specification
  lists the keywords.
\<close>

definition firstKeywordHit :: "(string list \<times> string) list \<Rightarrow> string \<Rightarrow> string option" where
  "firstKeywordHit table u =
     map_option snd (find (\<lambda>row. \<exists>k\<in>set (fst row). includes_str u k) table)"

definition keywordPriority :: "(string list \<times> string) list" where
  "keywordPriority =
     [([''jpg'', ''jpeg''], ''jpg''), ([''png''], ''png''), ([''svg''], ''svg''),
      ([''webp''], ''webp''), ([''gif''], ''gif''), ([''bmp''], ''bmp''), ([''ico''], ''ico''),
      ([''tiff'', ''tif''], ''tiff''), ([''apng''], ''apng''), ([''avif''], ''avif'')]"

definition listedPriority :: "(string list \<times> string) list" where
  "listedPriority =
     [([''png''], ''png''), ([''jpg'', ''jpeg''], ''jpg''), ([''svg''], ''svg''),
      ([''webp''], ''webp''), ([''gif''], ''gif''), ([''bmp''], ''bmp''), ([''ico''], ''ico''),
      ([''tiff'', ''tif''], ''tiff''), ([''apng''], ''apng''), ([''avif''], ''avif'')]"

section \<open>Network resolution\<close>

text \<open>
  What the host gives back for one \<open>fetch\<close>: the call rejects, or it resolves to a response
  with its \<open>ok\<close> flag, whether its \<open>type\<close> is \<open>opaque\<close>, the \<open>Content-Type\<close> header (if any)
  and the bytes \<open>arrayBuffer()\<close> resolves to (\<open>None\<close> when it rejects).
\<close>

record response =
  ok :: bool
  opaque :: bool
  contentType :: "string option"
  arrayBuffer :: "byte list option"

datatype fetch_outcome = FetchRejects | FetchResolves response

text \<open>
  The loop over the two fetch configurations: a rejected fetch moves on, a resolved one is
  stored, and the loop stops at the first response that is \<open>ok\<close> or opaque.
\<close>

fun fetchLoop :: "fetch_outcome list \<Rightarrow> response option \<Rightarrow> response option" where
  "fetchLoop [] response = response"
| "fetchLoop (FetchRejects # configs) response = fetchLoop configs response"
| "fetchLoop (FetchResolves r # configs) response =
     (if ok r \<or> opaque r then Some r else fetchLoop configs (Some r))"

text \<open>\<open>s.replace(p, '')\<close>: the first occurrence of \<open>p\<close> removed.\<close>

fun replaceWithEmpty :: "string \<Rightarrow> string \<Rightarrow> string" where
  "replaceWithEmpty [] p = []"
| "replaceWithEmpty (c # cs) p =
     (if startsWith (c # cs) p then drop (length p) (c # cs) else c # replaceWithEmpty cs p)"

text \<open>
  The opaque branch. \<open>contentType.match(/image\/(.*)/)\<close> on a string that starts with
  \<open>image/\<close> captures the rest of its first line.
\<close>

definition opaqueType :: "string option \<Rightarrow> error + string" where
  "opaqueType header =
     (case header of
        None \<Rightarrow> Inl NetworkError
      | Some ct \<Rightarrow>
          if ct \<noteq> [] \<and> startsWith ct ''image/'' then
            (let t = toLowerCase (takeWhile (\<lambda>c. \<not> isLineTerminator c) (drop (length ''image/'') ct))
             in if t = ''jpeg'' then Inr ''jpg''
                else if t \<in> set [''jpg'', ''png'', ''gif'', ''webp'', ''bmp'', ''svg+xml'', ''avif'',
                                   ''tiff'', ''ico'']
                then Inr (replaceWithEmpty t ''+xml'')
                else Inl NetworkError)
          else Inl NetworkError)"

text \<open>The \<open>try\<close> block of \<open>getImageTypeByFetch\<close>; every \<open>throw\<close> and rejection is \<open>Inl\<close>.\<close>

definition fetchType :: "fetch_outcome \<Rightarrow> fetch_outcome \<Rightarrow> error + string" where
  "fetchType cors noCors =
     (case fetchLoop [cors, noCors] None of
        None \<Rightarrow> Inl NetworkError
      | Some r \<Rightarrow>
          if opaque r then opaqueType (contentType r)
          else (case arrayBuffer r of
                  None \<Rightarrow> Inl NetworkError
                | Some buffer \<Rightarrow> Inr (detectImageTypeByMagicNumber buffer)))"

text \<open>The \<open>catch\<close> block: the last attempt, on the lower-cased URL.\<close>

definition urlFallback :: "string \<Rightarrow> string" where
  "urlFallback url =
     (let urlLower = toLowerCase url in
      if includes_str urlLower ''image/jpeg'' \<or> includes_str urlLower ''image/jpg'' then ''jpg''
      else if includes_str urlLower ''image/png'' then ''png''
      else if includes_str urlLower ''image/gif'' then ''gif''
      else if includes_str urlLower ''image/webp'' then ''webp''
      else if includes_str urlLower ''image/bmp'' then ''bmp''
      else if includes_str urlLower ''image/svg'' then ''svg''
      else if includes_str urlLower ''image/avif'' then ''avif''
      else if includes_str urlLower ''image/tiff'' then ''tiff''
      else if includes_str urlLower ''image/ico'' then ''ico''
      else ''unknown'')"

text \<open>
  \<open>getImageTypeByFetch\<close>, given the outcomes of the \<open>cors\<close> fetch and of the \<open>no-cors\<close> fetch
  (the second is only looked at when the loop reaches it). The value is what the promise
  resolves to.
\<close>

definition getImageTypeByFetch :: "string \<Rightarrow> fetch_outcome \<Rightarrow> fetch_outcome \<Rightarrow> string" where
  "getImageTypeByFetch url cors noCors =
     (case fetchType cors noCors of Inr t \<Rightarrow> t | Inl e \<Rightarrow> urlFallback url)"

text \<open>
  The \<open>image/<subtype>\<close> substrings of the last attempt with the tag each stands for, in
  the order of the specification's list, for comparison with \<open>urlFallback\<close>.
\<close>

definition mimeSubstrings :: "(string \<times> string) list" where
  "mimeSubstrings =
     [(''image/jpeg'', ''jpg''), (''image/jpg'', ''jpg''), (''image/png'', ''png''),
      (''image/gif'', ''gif''), (''image/webp'', ''webp''), (''image/bmp'', ''bmp''),
      (''image/svg'', ''svg''), (''image/avif'', ''avif''), (''image/tiff'', ''tiff''),
      (''image/ico'', ''ico'')]"

definition firstMimeHit :: "string \<Rightarrow> string option" where
  "firstMimeHit u = map_option snd (find (\<lambda>row. includes_str u (fst row)) mimeSubstrings)"

section \<open>SVG dimension resolver\<close>

text \<open>
  A JavaScript number is a binary64 floating-point number: \<open>NaN\<close>, an infinity, or a finite
  value, given here as the rational it stands for (the two zeros are not told apart: both
  are falsy and neither is positive).
\<close>

datatype jsnum = NaN | Fin rat | PosInf | NegInf

text \<open>\<open>b ^ k\<close> for an integer \<open>k\<close> that is not negative, computed by squaring.\<close>

function toThe :: "rat \<Rightarrow> int \<Rightarrow> rat" where
  "toThe b k =
     (if k \<le> 0 then 1
      else if even k then (let h = toThe b (k div 2) in h * h)
      else b * toThe b (k - 1))"
  by pat_completeness auto
termination
  by (relation "measure (\<lambda>(b, k). nat k)") auto

declare toThe.simps [simp del]

text \<open>Powers of two with an integer exponent.\<close>

definition pow2 :: "int \<Rightarrow> rat" where
  "pow2 e = (if 0 \<le> e then toThe 2 e else 1 / toThe 2 (- e))"

text \<open>The number of binary digits of a positive integer.\<close>

function bitLength :: "int \<Rightarrow> int" where
  "bitLength k = (if 0 < k then bitLength (k div 2) + 1 else 0)"
  by pat_completeness auto
termination
  by (relation "measure nat") auto

declare bitLength.simps [simp del]

text \<open>
  For a positive rational \<open>x\<close>, the exponent \<open>e\<close> with \<open>2 ^ e \<le> x < 2 ^ (e + 1)\<close>: the
  quotient of a numerator of \<open>m\<close> bits by a denominator of \<open>n\<close> bits lies strictly between
  \<open>2 ^ (m - n - 1)\<close> and \<open>2 ^ (m - n + 1)\<close>.
\<close>

definition floorLog2 :: "rat \<Rightarrow> int" where
  "floorLog2 x =
     (let d = bitLength (fst (quotient_of x)) - bitLength (snd (quotient_of x))
      in if pow2 d \<le> x then d else d - 1)"

text \<open>The nearest integer, a tie going to the even one.\<close>

definition roundHalfEven :: "rat \<Rightarrow> int" where
  "roundHalfEven x =
     (let f = \<lfloor>x\<rfloor>; d = x - of_int f
      in if d < 1 / 2 then f else if 1 / 2 < d then f + 1 else if even f then f else f + 1)"

text \<open>
  The number value of a real: the nearest binary64 value, ties to even. A value has 53
  significant bits, the exponent of its leading bit is at least \<open>-1022\<close> (below that the
  spacing stays \<open>2 ^ -1074\<close>, so that small reals become \<open>0\<close>), and what rounds to \<open>2 ^ 1024\<close>
  or more is infinite.
\<close>

definition toDouble :: "rat \<Rightarrow> jsnum" where
  "toDouble x =
     (if x = 0 then Fin 0
      else
        (let a = \<bar>x\<bar>;
             e = max (floorLog2 a) (- 1022);
             q = pow2 (e - 52);
             v = of_int (roundHalfEven (a / q)) * q
         in if pow2 1024 \<le> v then (if x < 0 then NegInf else PosInf)
            else Fin (if x < 0 then - v else v)))"

text \<open>
  What the variables \<open>width\<close> and \<open>height\<close> of \<open>parseSvgDimensions\<close> hold: \<open>null\<close>, the text
  captured by a regular expression, or a number.
\<close>

datatype jsval = Null | Str string | Number jsnum

text \<open>\<open>!v\<close> is \<open>\<not> truthy v\<close>: \<open>null\<close>, the empty string, \<open>0\<close> and \<open>NaN\<close> are falsy.\<close>

fun truthy :: "jsval \<Rightarrow> bool" where
  "truthy Null = False"
| "truthy (Str s) = (s \<noteq> [])"
| "truthy (Number NaN) = False"
| "truthy (Number (Fin r)) = (r \<noteq> 0)"
| "truthy (Number PosInf) = True"
| "truthy (Number NegInf) = True"

text \<open>\<open>x > 0\<close> on numbers: false for \<open>NaN\<close>.\<close>

fun positive :: "jsnum \<Rightarrow> bool" where
  "positive (Fin r) = (0 < r)"
| "positive PosInf = True"
| "positive NaN = False"
| "positive NegInf = False"

definition isDigit :: "char \<Rightarrow> bool" where
  "isDigit c = (let n = (of_char c :: nat) in 48 \<le> n \<and> n \<le> 57)"

definition isDigitDot :: "char \<Rightarrow> bool" where
  "isDigitDot c = (isDigit c \<or> c = CHR ''.'')"

text \<open>
  The class \<open>\s\<close>, which is also the white space that \<open>parseFloat\<close> skips: space, tab,
  line feed, vertical tab, form feed, carriage return and the no-break space \<open>U+00A0\<close>.
\<close>

definition isSpace :: "char \<Rightarrow> bool" where
  "isSpace c = (c = CHR '' '' \<or> c = CHR 0x09 \<or> c = CHR 0x0A \<or> c = CHR 0x0B \<or> c = CHR 0x0C
     \<or> c = CHR 0x0D \<or> c = CHR 0xA0)"

text \<open>The value of a run of decimal digits.\<close>

definition digitsVal :: "string \<Rightarrow> int" where
  "digitsVal ds = foldl (\<lambda>acc c. 10 * acc + (of_char c - 48)) 0 ds"

text \<open>An unsigned mantissa times a power of ten with an integer exponent.\<close>

definition scale10 :: "rat \<Rightarrow> int \<Rightarrow> rat" where
  "scale10 m e = (if 0 \<le> e then m * toThe 10 e else m / toThe 10 (- e))"

text \<open>
  An optional exponent part at the head of the text: \<open>e\<close> or \<open>E\<close>, an optional sign and at
  least one digit; otherwise the exponent is \<open>0\<close>.
\<close>

definition exponentPart :: "string \<Rightarrow> int" where
  "exponentPart s =
     (if startsWith s ''e'' \<or> startsWith s ''E'' then
        (let r = tl s;
             neg = startsWith r ''-'';
             r' = (if startsWith r ''-'' \<or> startsWith r ''+'' then tl r else r);
             ds = takeWhile isDigit r'
         in if ds = [] then 0 else if neg then - digitsVal ds else digitsVal ds)
      else 0)"

text \<open>
  \<open>parseFloat\<close> on a string: leading white space is skipped, then the longest prefix that is
  a decimal literal is read (an optional sign, then \<open>Infinity\<close> or digits with an optional
  fraction and an optional exponent); \<open>NaN\<close> when there is none. The result is the number
  value of the literal's mathematical value.
\<close>

definition parseFloat :: "string \<Rightarrow> jsnum" where
  "parseFloat s =
     (let s1 = dropWhile isSpace s;
          neg = startsWith s1 ''-'';
          s2 = (if startsWith s1 ''-'' \<or> startsWith s1 ''+'' then tl s1 else s1)
      in if startsWith s2 ''Infinity'' then (if neg then NegInf else PosInf)
         else
           (let ip = takeWhile isDigit s2;
                r1 = drop (length ip) s2;
                fp = (if startsWith r1 ''.'' then takeWhile isDigit (tl r1) else []);
                r2 = (if startsWith r1 ''.'' \<and> (ip \<noteq> [] \<or> fp \<noteq> [])
                      then drop (length fp) (tl r1) else r1)
            in if ip = [] \<and> fp = [] then NaN
               else
                 (let m = of_int (digitsVal ip) + of_int (digitsVal fp) / toThe 10 (int (length fp));
                      v = scale10 m (exponentPart r2)
                  in toDouble (if neg then - v else v))))"

text \<open>
  \<open>parseFloat(v)\<close> on the value of \<open>width\<close> or \<open>height\<close>: a number is converted to a string
  and read back, which gives the same number.
\<close>

fun parseFloatVal :: "jsval \<Rightarrow> jsnum" where
  "parseFloatVal (Str s) = parseFloat s"
| "parseFloatVal (Number n) = n"
| "parseFloatVal Null = NaN"

text \<open>\<open>Math.round(Math.min(Math.max(x, 1), 50000))\<close> for a positive \<open>x\<close>.\<close>

fun roundClamped :: "jsnum \<Rightarrow> int" where
  "roundClamped (Fin r) = \<lfloor>min (max r 1) 50000 + 1 / 2\<rfloor>"
| "roundClamped PosInf = 50000"
| "roundClamped NegInf = 1"
| "roundClamped NaN = 0"

text \<open>
  The block that converts and validates: \<open>Some\<close> of the object returned when both numbers
  are positive, \<open>None\<close> when the function goes on.
\<close>

definition validated :: "jsval \<Rightarrow> jsval \<Rightarrow> dims option" where
  "validated widthVar heightVar =
     (let widthNum = (if truthy widthVar then parseFloatVal widthVar else Fin 0);
          heightNum = (if truthy heightVar then parseFloatVal heightVar else Fin 0)
      in if positive widthNum \<and> positive heightNum
         then Some (roundClamped widthNum, roundClamped heightNum) else None)"

text \<open>\<open>s.match(/([\d.]+)/)\<close>: the first run of digits and dots.\<close>

definition matchNumber :: "string \<Rightarrow> string option" where
  "matchNumber s =
     (let run = takeWhile isDigitDot (dropWhile (\<lambda>c. \<not> isDigitDot c) s)
      in if run = [] then None else Some run)"

text \<open>
  \<open>style.match(/width:\s*([\d.]+)\s*(px|...)?/)\<close> and the same for \<open>height:\<close>: group 1 at the
  leftmost place where the key, optional white space and a run of digits and dots follow
  one another.
\<close>

fun matchDeclaration :: "string \<Rightarrow> string \<Rightarrow> string option" where
  "matchDeclaration key [] = None"
| "matchDeclaration key (c # cs) =
     (let run = takeWhile isDigitDot (dropWhile isSpace (drop (length key) (c # cs)))
      in if startsWith (c # cs) key \<and> run \<noteq> [] then Some run
         else matchDeclaration key cs)"

text \<open>\<open>s.split(/\s+/)\<close>: the pieces between the runs of white space.\<close>

function splitSpaces :: "string \<Rightarrow> string list" where
  "splitSpaces [] = [[]]"
| "splitSpaces (c # cs) =
     (if isSpace c then [] # splitSpaces (dropWhile isSpace cs)
      else (case splitSpaces cs of [] \<Rightarrow> [[c]] | p # ps \<Rightarrow> (c # p) # ps))"
  by pat_completeness auto
termination
  by (relation "measure length") (auto simp: length_dropWhile_le less_Suc_eq_le)

type_synonym size_vars = "jsval \<times> jsval"

text \<open>Method 1 on one attribute value that is a string (\<open>None\<close>: \<open>null\<close> or \<open>undefined\<close>).\<close>

definition fromAttribute :: "string option \<Rightarrow> jsval" where
  "fromAttribute attr =
     (case attr of
        None \<Rightarrow> Null
      | Some a \<Rightarrow> if a = [] then Null
                  else (case matchNumber a of None \<Rightarrow> Null | Some m \<Rightarrow> Str m))"

text \<open>Method 2, entered when \<open>!width || !height\<close>, on a non-empty \<open>viewBox\<close> string.\<close>

definition fromViewBox :: "string \<Rightarrow> size_vars \<Rightarrow> size_vars" where
  "fromViewBox viewBox vars =
     (let viewBoxParts = filter (\<lambda>part. part \<noteq> []) (splitSpaces viewBox) in
      if length viewBoxParts \<ge> 4 then
        (let vbWidth = parseFloat (viewBoxParts ! 2);
             vbHeight = parseFloat (viewBoxParts ! 3)
         in (if \<not> truthy (fst vars) then Number vbWidth else fst vars,
             if \<not> truthy (snd vars) then Number vbHeight else snd vars))
      else vars)"

text \<open>Method 3, entered when \<open>!width || !height\<close>, on a non-empty \<open>style\<close> string.\<close>

definition fromStyle :: "string \<Rightarrow> size_vars \<Rightarrow> size_vars" where
  "fromStyle style vars =
     (let widthMatch = matchDeclaration ''width:'' style;
          heightMatch = matchDeclaration ''height:'' style
      in (case widthMatch of
            Some m \<Rightarrow> if \<not> truthy (fst vars) then Str m else fst vars
          | None \<Rightarrow> fst vars,
          case heightMatch of
            Some m \<Rightarrow> if \<not> truthy (snd vars) then Str m else snd vars
          | None \<Rightarrow> snd vars))"

text \<open>
  A property of the root object that \<open>fast-xml-parser\<close> returns. With
  \<open>parseAttributeValue: true\<close> it need not be a string: \<open>FOther b\<close> is any other value, of
  truthiness \<open>b\<close>, on which \<open>.match\<close> and \<open>.split\<close> are not functions.
\<close>

datatype fxp_val = FStr string | FOther bool

record fxp_element =
  fxWidth :: "fxp_val option"
  fxHeight :: "fxp_val option"
  fxViewBox :: "fxp_val option"
  fxStyle :: "fxp_val option"

text \<open>
  The library is not loaded, \<open>parser.parse\<close> throws, or it returns an object whose \<open>svg\<close>
  property is falsy (\<open>None\<close>) or the root element.
\<close>

datatype fxp_outcome = FxpMissing | FxpThrows | FxpParsed "fxp_element option"

text \<open>
  A truthy property is used as a string: \<open>Inl TypeError\<close> when it is none. \<open>None\<close> when the
  property is absent or falsy.
\<close>

definition fxpString :: "fxp_val option \<Rightarrow> error + string option" where
  "fxpString v =
     (case v of
        None \<Rightarrow> Inr None
      | Some (FStr s) \<Rightarrow> Inr (if s = [] then None else Some s)
      | Some (FOther b) \<Rightarrow> if b then Inl TypeError else Inr None)"

text \<open>
  The inner \<open>try\<close> block for a root element: methods 1 to 3, then the validation. \<open>Inl\<close> is an
  exception, \<open>Inr None\<close> the end of the block without a \<open>return\<close>.
\<close>

definition fxpDimensions :: "fxp_element \<Rightarrow> error + dims option" where
  "fxpDimensions svgElement =
     (case fxpString (fxWidth svgElement) of Inl e \<Rightarrow> Inl e | Inr widthAttr \<Rightarrow>
      (case fxpString (fxHeight svgElement) of Inl e \<Rightarrow> Inl e | Inr heightAttr \<Rightarrow>
        (let vars1 = (fromAttribute widthAttr, fromAttribute heightAttr) in
         (case (if \<not> truthy (fst vars1) \<or> \<not> truthy (snd vars1)
                then (case fxpString (fxViewBox svgElement) of
                        Inl e \<Rightarrow> Inl e
                      | Inr None \<Rightarrow> Inr vars1
                      | Inr (Some viewBox) \<Rightarrow> Inr (fromViewBox viewBox vars1))
                else Inr vars1) of
            Inl e \<Rightarrow> Inl e
          | Inr vars2 \<Rightarrow>
             (case (if \<not> truthy (fst vars2) \<or> \<not> truthy (snd vars2)
                    then (case fxpString (fxStyle svgElement) of
                            Inl e \<Rightarrow> Inl e
                          | Inr None \<Rightarrow> Inr vars2
                          | Inr (Some style) \<Rightarrow> Inr (fromStyle style vars2))
                    else Inr vars2) of
                Inl e \<Rightarrow> Inl e
              | Inr vars3 \<Rightarrow> Inr (validated (fst vars3) (snd vars3)))))))"

text \<open>
  What \<open>querySelector\<close> and \<open>getBBox\<close> give for the first drawable child: no such child, no
  \<open>getBBox\<close> function, an exception, or a box of some width and height.
\<close>

datatype bbox_outcome = NoDrawable | NoGetBBox | BBoxThrows | BBox jsnum jsnum

text \<open>
  The root element that \<open>DOMParser\<close> and \<open>querySelector('svg')\<close> give: its attributes
  (\<open>getAttribute\<close> returns \<open>null\<close> for an absent one), the width and height of its inline
  style object, and the box of its first drawable child.
\<close>

record dom_element =
  widthAttr :: "string option"
  heightAttr :: "string option"
  viewBoxAttr :: "string option"
  styleAttr :: "string option"
  computedWidth :: string
  computedHeight :: string
  firstPathBBox :: bbox_outcome

datatype dom_outcome = DomThrows | DomParsed "dom_element option"

text \<open>\<open>Math.ceil(x + 10)\<close>: the sum is a number value again.\<close>

fun ceilPadded :: "jsnum \<Rightarrow> jsnum" where
  "ceilPadded (Fin r) =
     (case toDouble (r + 10) of Fin s \<Rightarrow> Fin (of_int \<lceil>s\<rceil>) | n \<Rightarrow> n)"
| "ceilPadded n = n"

text \<open>Method 4: the inline style object.\<close>

definition fromComputed :: "string \<Rightarrow> string \<Rightarrow> size_vars \<Rightarrow> size_vars" where
  "fromComputed cw ch vars =
     (if cw \<noteq> [] \<and> \<not> truthy (fst vars)
      then (case matchNumber cw of Some m \<Rightarrow> Str m | None \<Rightarrow> fst vars) else fst vars,
      if ch \<noteq> [] \<and> \<not> truthy (snd vars)
      then (case matchNumber ch of Some m \<Rightarrow> Str m | None \<Rightarrow> snd vars) else snd vars)"

text \<open>Method 5: the bounding box, inside its own \<open>try\<close>.\<close>

definition fromBBox :: "bbox_outcome \<Rightarrow> size_vars \<Rightarrow> size_vars" where
  "fromBBox b vars =
     (case b of
        BBox bw bh \<Rightarrow>
          if positive bw \<and> positive bh
          then (if \<not> truthy (fst vars) then Number (ceilPadded bw) else fst vars,
                if \<not> truthy (snd vars) then Number (ceilPadded bh) else snd vars)
          else vars
      | _ \<Rightarrow> vars)"

definition unlessBoth :: "size_vars \<Rightarrow> (size_vars \<Rightarrow> size_vars) \<Rightarrow> size_vars" where
  "unlessBoth vars method =
     (if \<not> truthy (fst vars) \<or> \<not> truthy (snd vars) then method vars else vars)"

text \<open>The fallback for a root element: methods 1 to 5, then the validation.\<close>

definition domDimensions :: "dom_element \<Rightarrow> dims option" where
  "domDimensions svgElement =
     (let vars1 = (fromAttribute (widthAttr svgElement), fromAttribute (heightAttr svgElement));
          vars2 = unlessBoth vars1
                    (case viewBoxAttr svgElement of
                       None \<Rightarrow> (\<lambda>v. v)
                     | Some viewBox \<Rightarrow> if viewBox = [] then (\<lambda>v. v) else fromViewBox viewBox);
          vars3 = unlessBoth vars2
                    (case styleAttr svgElement of
                       None \<Rightarrow> (\<lambda>v. v)
                     | Some style \<Rightarrow> if style = [] then (\<lambda>v. v) else fromStyle style);
          vars4 = unlessBoth vars3
                    (fromComputed (computedWidth svgElement) (computedHeight svgElement));
          vars5 = unlessBoth vars4 (fromBBox (firstPathBBox svgElement))
      in validated (fst vars5) (snd vars5))"

text \<open>
  \<open>parseSvgDimensions\<close>, given what the two parsers make of the cleaned content. The first
  parser decides when it finds a root element with two positive numbers; in every other
  case, an exception included, the fallback runs, and \<open>{0, 0}\<close> is returned when it finds
  no positive pair either or throws.
\<close>

definition parseSvgDimensions :: "fxp_outcome \<Rightarrow> dom_outcome \<Rightarrow> dims" where
  "parseSvgDimensions fxp svgDoc =
     (case (case fxp of
              FxpParsed (Some svgElement) \<Rightarrow>
                (case fxpDimensions svgElement of Inl e \<Rightarrow> None | Inr r \<Rightarrow> r)
            | _ \<Rightarrow> None) of
        Some d \<Rightarrow> d
      | None \<Rightarrow>
          (case svgDoc of
             DomParsed (Some svgElement) \<Rightarrow>
               (case domDimensions svgElement of Some d \<Rightarrow> d | None \<Rightarrow> (0, 0))
           | _ \<Rightarrow> (0, 0)))"

section \<open>Properties of the binary sniffer\<close>

lemma cond_simps:
  "cond (Inr True) t e = t" "cond (Inr False) t e = e" "cond (Inl x) t e = Inl x"
  by (simp_all add: cond_def)

lemma andAlso_simps:
  "andAlso (Inr True) b = b" "andAlso (Inr False) b = Inr False" "andAlso (Inl x) b = Inl x"
  by (simp_all add: andAlso_def)

lemma orElse_simps:
  "orElse (Inr True) b = Inr True" "orElse (Inr False) b = b" "orElse (Inl x) b = Inl x"
  by (simp_all add: orElse_def)

lemma isEq_simps: "isEq (Inr x) v = Inr (x = v)" "isEq (Inl e) v = Inl e"
  by (simp_all add: isEq_def)

lemmas check_defs = jpgCheck_def pngCheck_def gifCheck_def bmpCheck_def webpCheck_def
  avifCheck_def icoCheck_def tiffCheck_def heicCheck_def

lemmas sniff_eval = cond_simps andAlso_simps orElse_simps isEq_simps len_ge_def getUint8_def
  getUint16_def getUint32_def ftypBrand_def check_defs sniff_def
  detectImageTypeByMagicNumber_def

lemma cond_Inr_cases:
  assumes "cond c (Inr t) e = Inr r"
  obtains "c = Inr True" "r = t" | "c = Inr False" "e = Inr r"
  using assms by (auto simp: cond_def split: sum.splits if_splits)

lemma andAlso_len_ge_True: "andAlso (len_ge view n) x = Inr True \<Longrightarrow> n \<le> length view"
  by (auto simp: andAlso_def len_ge_def split: if_splits)

lemma andAlso_len_ge_short: "length view < n \<Longrightarrow> andAlso (len_ge view n) x = Inr False"
  by (simp add: andAlso_def len_ge_def)

text \<open>A check whose length guard fails neither matches nor throws.\<close>

lemma short_checks:
  "length view < 2 \<Longrightarrow> jpgCheck view = Inr False"
  "length view < 8 \<Longrightarrow> pngCheck view = Inr False"
  "length view < 6 \<Longrightarrow> gifCheck view = Inr False"
  "length view < 2 \<Longrightarrow> bmpCheck view = Inr False"
  "length view < 12 \<Longrightarrow> webpCheck view = Inr False"
  "length view < 12 \<Longrightarrow> avifCheck view = Inr False"
  "length view < 6 \<Longrightarrow> icoCheck view = Inr False"
  "length view < 4 \<Longrightarrow> tiffCheck view = Inr False"
  "length view < 12 \<Longrightarrow> heicCheck view = Inr False"
  by (simp_all add: check_defs andAlso_len_ge_short)

lemma sniff_tag: "sniff view = Inr r \<Longrightarrow> r \<in> set imageTags"
  unfolding sniff_def imageTags_def
  by (elim cond_Inr_cases) auto

text \<open>A tag is returned only by its own check.\<close>

lemma sniff_tag_check:
  assumes "sniff view = Inr r"
  shows "(r = ''jpg'' \<longrightarrow> jpgCheck view = Inr True)
       \<and> (r = ''png'' \<longrightarrow> pngCheck view = Inr True)
       \<and> (r = ''gif'' \<longrightarrow> gifCheck view = Inr True)
       \<and> (r = ''bmp'' \<longrightarrow> bmpCheck view = Inr True)
       \<and> (r = ''webp'' \<longrightarrow> webpCheck view = Inr True)
       \<and> (r = ''avif'' \<longrightarrow> avifCheck view = Inr True)
       \<and> (r = ''ico'' \<longrightarrow> icoCheck view = Inr True)
       \<and> (r = ''tiff'' \<longrightarrow> tiffCheck view = Inr True)
       \<and> (r = ''heic'' \<longrightarrow> heicCheck view = Inr True)"
  using assms unfolding sniff_def
  by (elim cond_Inr_cases) auto

lemma detect_cases:
  "detectImageTypeByMagicNumber buffer = ''unknown''
   \<or> sniff buffer = Inr (detectImageTypeByMagicNumber buffer)"
  by (simp add: detectImageTypeByMagicNumber_def split: sum.splits)

lemma detect_tag_check:
  assumes "detectImageTypeByMagicNumber buffer = r"
  shows "(r = ''jpg'' \<longrightarrow> jpgCheck buffer = Inr True)
       \<and> (r = ''png'' \<longrightarrow> pngCheck buffer = Inr True)
       \<and> (r = ''gif'' \<longrightarrow> gifCheck buffer = Inr True)
       \<and> (r = ''bmp'' \<longrightarrow> bmpCheck buffer = Inr True)
       \<and> (r = ''webp'' \<longrightarrow> webpCheck buffer = Inr True)
       \<and> (r = ''avif'' \<longrightarrow> avifCheck buffer = Inr True)
       \<and> (r = ''ico'' \<longrightarrow> icoCheck buffer = Inr True)
       \<and> (r = ''tiff'' \<longrightarrow> tiffCheck buffer = Inr True)
       \<and> (r = ''heic'' \<longrightarrow> heicCheck buffer = Inr True)"
proof (cases "r = ''unknown''")
  case True
  then show ?thesis by simp
next
  case False
  with assms detect_cases [of buffer] have "sniff buffer = Inr r" by simp
  then show ?thesis by (rule sniff_tag_check)
qed

lemma detectImageTypeByMagicNumber_tag: "detectImageTypeByMagicNumber buffer \<in> set imageTags"
  using detect_cases [of buffer] sniff_tag [of buffer]
  by (auto simp: imageTags_def)

text \<open>
  The \<open>catch\<close> is not idle: the \<open>ftyp\<close> checks read bytes 12 to 15 behind a guard of 12,
  so the body throws on a 12-byte \<open>ftyp\<close> buffer, and the result is \<open>unknown\<close>.
\<close>

lemma sniff_throws_on_truncated_ftyp:
  "sniff [0, 0, 0, 0, 0x66, 0x74, 0x79, 0x70, 0x68, 0x65, 0x69, 0x63] = Inl RangeError
   \<and> detectImageTypeByMagicNumber [0, 0, 0, 0, 0x66, 0x74, 0x79, 0x70, 0x68, 0x65, 0x69, 0x63]
       = ''unknown''"
  by (simp add: sniff_eval)

lemma jpgCheck_prefix: "prefix [0xFF, 0xD8] view \<Longrightarrow> jpgCheck view = Inr True"
  by (auto simp: prefix_def jpgCheck_def andAlso_simps isEq_simps len_ge_def getUint8_def)

lemma pngCheck_prefix:
  "prefix [0x89, 0x50, 0x4E, 0x47, 0x0D, 0x0A, 0x1A, 0x0A] view \<Longrightarrow> pngCheck view = Inr True"
  by (auto simp: prefix_def pngCheck_def andAlso_simps isEq_simps len_ge_def getUint8_def)

lemma jpgCheck_png_prefix:
  "prefix [0x89, 0x50, 0x4E, 0x47, 0x0D, 0x0A, 0x1A, 0x0A] view \<Longrightarrow> jpgCheck view = Inr False"
  by (auto simp: prefix_def jpgCheck_def andAlso_simps isEq_simps len_ge_def getUint8_def)

text \<open>
  C2. For every byte buffer, the empty one and the truncated ones included,
  \<open>detectImageTypeByMagicNumber\<close> returns one of the format tags or \<open>unknown\<close> (it is a total
  function: what the body throws, the \<open>catch\<close> turns into \<open>unknown\<close>). A buffer shorter than
  the length a format's check asks for makes that check fail without throwing, so the
  result is not that format; a buffer shorter than two bytes is \<open>unknown\<close>.
\<close>

theorem detectImageTypeByMagicNumber_total_short_unknown:
  "detectImageTypeByMagicNumber buffer \<in> set imageTags
   \<and> (length buffer < 2 \<longrightarrow> detectImageTypeByMagicNumber buffer = ''unknown'')
   \<and> (length buffer < 2 \<longrightarrow> jpgCheck buffer = Inr False
          \<and> detectImageTypeByMagicNumber buffer \<noteq> ''jpg'')
   \<and> (length buffer < 8 \<longrightarrow> pngCheck buffer = Inr False
          \<and> detectImageTypeByMagicNumber buffer \<noteq> ''png'')
   \<and> (length buffer < 6 \<longrightarrow> gifCheck buffer = Inr False
          \<and> detectImageTypeByMagicNumber buffer \<noteq> ''gif'')
   \<and> (length buffer < 2 \<longrightarrow> bmpCheck buffer = Inr False
          \<and> detectImageTypeByMagicNumber buffer \<noteq> ''bmp'')
   \<and> (length buffer < 12 \<longrightarrow> webpCheck buffer = Inr False
          \<and> detectImageTypeByMagicNumber buffer \<noteq> ''webp'')
   \<and> (length buffer < 12 \<longrightarrow> avifCheck buffer = Inr False
          \<and> detectImageTypeByMagicNumber buffer \<noteq> ''avif'')
   \<and> (length buffer < 6 \<longrightarrow> icoCheck buffer = Inr False
          \<and> detectImageTypeByMagicNumber buffer \<noteq> ''ico'')
   \<and> (length buffer < 4 \<longrightarrow> tiffCheck buffer = Inr False
          \<and> detectImageTypeByMagicNumber buffer \<noteq> ''tiff'')
   \<and> (length buffer < 12 \<longrightarrow> heicCheck buffer = Inr False
          \<and> detectImageTypeByMagicNumber buffer \<noteq> ''heic'')"
proof -
  have tag: "detectImageTypeByMagicNumber buffer \<in> set imageTags"
    by (rule detectImageTypeByMagicNumber_tag)
  have short: "detectImageTypeByMagicNumber buffer = ''unknown''" if "length buffer < 2"
    using that
    by (simp add: detectImageTypeByMagicNumber_def sniff_def short_checks cond_simps)
  have jpg: "detectImageTypeByMagicNumber buffer \<noteq> ''jpg''" if "length buffer < 2"
    using short_checks(1) [OF that] detect_tag_check [of buffer "''jpg''"] by auto
  have png: "detectImageTypeByMagicNumber buffer \<noteq> ''png''" if "length buffer < 8"
    using short_checks(2) [OF that] detect_tag_check [of buffer "''png''"] by auto
  have gif: "detectImageTypeByMagicNumber buffer \<noteq> ''gif''" if "length buffer < 6"
    using short_checks(3) [OF that] detect_tag_check [of buffer "''gif''"] by auto
  have bmp: "detectImageTypeByMagicNumber buffer \<noteq> ''bmp''" if "length buffer < 2"
    using short_checks(4) [OF that] detect_tag_check [of buffer "''bmp''"] by auto
  have webp: "detectImageTypeByMagicNumber buffer \<noteq> ''webp''" if "length buffer < 12"
    using short_checks(5) [OF that] detect_tag_check [of buffer "''webp''"] by auto
  have avif: "detectImageTypeByMagicNumber buffer \<noteq> ''avif''" if "length buffer < 12"
    using short_checks(6) [OF that] detect_tag_check [of buffer "''avif''"] by auto
  have ico: "detectImageTypeByMagicNumber buffer \<noteq> ''ico''" if "length buffer < 6"
    using short_checks(7) [OF that] detect_tag_check [of buffer "''ico''"] by auto
  have tiff: "detectImageTypeByMagicNumber buffer \<noteq> ''tiff''" if "length buffer < 4"
    using short_checks(8) [OF that] detect_tag_check [of buffer "''tiff''"] by auto
  have heic: "detectImageTypeByMagicNumber buffer \<noteq> ''heic''" if "length buffer < 12"
    using short_checks(9) [OF that] detect_tag_check [of buffer "''heic''"] by auto
  from tag short jpg png gif bmp webp avif ico tiff heic show ?thesis
    by (simp add: short_checks)
qed

text \<open>The empty buffer and a lone \<open>FF\<close> byte, shorter than every signature, are \<open>unknown\<close>.\<close>

theorem detectImageTypeByMagicNumber_total_short_unknown_witness:
  "length ([] :: byte list) < 2 \<and> detectImageTypeByMagicNumber [] = ''unknown''
   \<and> length [0xFF :: byte] < 2 \<and> detectImageTypeByMagicNumber [0xFF] = ''unknown''
   \<and> jpgCheck [0xFF] = Inr False \<and> pngCheck [0xFF] = Inr False
   \<and> detectImageTypeByMagicNumber [0xFF] \<in> set imageTags"
  using detectImageTypeByMagicNumber_total_short_unknown [of "[]"]
    detectImageTypeByMagicNumber_total_short_unknown [of "[0xFF]"]
  by (simp add: imageTags_def)

text \<open>
  C3. The checks run in a fixed order and the first that holds decides: every buffer whose
  first two bytes are \<open>FF D8\<close> is \<open>jpg\<close> (so is \<open>[FF, D8, 00, 00]\<close>), and every buffer that begins
  with the eight-byte PNG signature is \<open>png\<close>, never \<open>jpg\<close>.
\<close>

theorem detectImageTypeByMagicNumber_jpg_png:
  "(prefix [0xFF, 0xD8] buffer \<longrightarrow> detectImageTypeByMagicNumber buffer = ''jpg'')
   \<and> (prefix [0x89, 0x50, 0x4E, 0x47, 0x0D, 0x0A, 0x1A, 0x0A] buffer \<longrightarrow>
        detectImageTypeByMagicNumber buffer = ''png''
        \<and> detectImageTypeByMagicNumber buffer \<noteq> ''jpg'')
   \<and> detectImageTypeByMagicNumber [0xFF, 0xD8, 0x00, 0x00] = ''jpg''
   \<and> detectImageTypeByMagicNumber [0x89, 0x50, 0x4E, 0x47, 0x0D, 0x0A, 0x1A, 0x0A] = ''png''"
proof -
  have jpg: "detectImageTypeByMagicNumber b = ''jpg''" if "prefix [0xFF, 0xD8] b" for b
    using that
    by (auto simp: detectImageTypeByMagicNumber_def sniff_def jpgCheck_prefix cond_simps)
  have png: "detectImageTypeByMagicNumber b = ''png''"
    if "prefix [0x89, 0x50, 0x4E, 0x47, 0x0D, 0x0A, 0x1A, 0x0A] b" for b
    using that
    by (auto simp: detectImageTypeByMagicNumber_def sniff_def pngCheck_prefix
        jpgCheck_png_prefix cond_simps)
  have "detectImageTypeByMagicNumber [0xFF, 0xD8, 0x00, 0x00] = ''jpg''"
    by (rule jpg) simp
  moreover have
    "detectImageTypeByMagicNumber [0x89, 0x50, 0x4E, 0x47, 0x0D, 0x0A, 0x1A, 0x0A] = ''png''"
    by (rule png) simp
  ultimately show ?thesis using jpg [of buffer] png [of buffer] by simp
qed

theorem detectImageTypeByMagicNumber_jpg_png_witness:
  "prefix [0xFF, 0xD8] [0xFF, 0xD8, 0x00, 0x2A :: byte]
   \<and> detectImageTypeByMagicNumber [0xFF, 0xD8, 0x00, 0x2A] = ''jpg''
   \<and> prefix [0x89, 0x50, 0x4E, 0x47, 0x0D, 0x0A, 0x1A, 0x0A]
        [0x89, 0x50, 0x4E, 0x47, 0x0D, 0x0A, 0x1A, 0x0A, 0x00 :: byte]
   \<and> detectImageTypeByMagicNumber [0x89, 0x50, 0x4E, 0x47, 0x0D, 0x0A, 0x1A, 0x0A, 0x00] = ''png''"
  using detectImageTypeByMagicNumber_jpg_png [of "[0xFF, 0xD8, 0x00, 0x2A]"]
    detectImageTypeByMagicNumber_jpg_png [of "[0x89, 0x50, 0x4E, 0x47, 0x0D, 0x0A, 0x1A, 0x0A, 0x00]"]
  by simp

section \<open>Properties of the coordinated refinement\<close>

text \<open>
  C1. \<open>getImageInfoCoordinated\<close> returns the record it was given with the type replaced
  exactly when the type task fulfilled with a value other than \<open>unknown\<close>, and with width and
  height replaced exactly when the dimension task fulfilled with two positive values; all
  other fields stay. Hence a type other than \<open>unknown\<close> never becomes \<open>unknown\<close>, and two
  positive dimensions stay positive, whatever the tasks report.
\<close>

theorem getImageInfoCoordinated_monotonic:
  "(let updated = getImageInfoCoordinated initialImage typeByFetch svgDimensions in
         (type updated \<noteq> type initialImage \<longrightarrow>
            typeByFetch = Fulfilled (type updated) \<and> type updated \<noteq> ''unknown'')
       \<and> (typeByFetch = Fulfilled ''unknown'' \<or> typeByFetch = Rejected \<longrightarrow>
            type updated = type initialImage)
       \<and> (width updated \<noteq> width initialImage \<or> height updated \<noteq> height initialImage \<longrightarrow>
            type initialImage = ''svg''
            \<and> svgDimensions = Fulfilled (width updated, height updated)
            \<and> 0 < width updated \<and> 0 < height updated)
       \<and> ((\<forall>w h. svgDimensions = Fulfilled (w, h) \<longrightarrow> w \<le> 0 \<or> h \<le> 0) \<longrightarrow>
            width updated = width initialImage \<and> height updated = height initialImage)
       \<and> (type initialImage \<noteq> ''unknown'' \<longrightarrow> type updated \<noteq> ''unknown'')
       \<and> (0 < width initialImage \<and> 0 < height initialImage \<longrightarrow>
            0 < width updated \<and> 0 < height updated)
       \<and> src updated = src initialImage \<and> alt updated = alt initialImage
       \<and> elementType updated = elementType initialImage)"
  unfolding getImageInfoCoordinated_def Let_def
  by (cases typeByFetch; cases svgDimensions) (auto split: prod.splits)

text \<open>
  An \<open>svg\<close> record of 5 by 5 refined to \<open>png\<close> and 120 by 80; then a later result that
  reports \<open>unknown\<close> and a rejected dimension task leaves the refined record as it is.
\<close>

theorem getImageInfoCoordinated_monotonic_witness:
  "type (getImageInfoCoordinated
      \<lparr>src = ''https://site.com/a'', alt = [], width = 5, height = 5, type = ''svg'',
       elementType = ''img''\<rparr> (Fulfilled ''png'') (Fulfilled (120, 80))) = ''png''
   \<and> width (getImageInfoCoordinated
      \<lparr>src = ''https://site.com/a'', alt = [], width = 5, height = 5, type = ''svg'',
       elementType = ''img''\<rparr> (Fulfilled ''png'') (Fulfilled (120, 80))) = 120
   \<and> type (getImageInfoCoordinated
      \<lparr>src = ''https://site.com/a'', alt = [], width = 120, height = 80, type = ''png'',
       elementType = ''img''\<rparr> (Fulfilled ''unknown'') Rejected) = ''png''
   \<and> 0 < width (getImageInfoCoordinated
      \<lparr>src = ''https://site.com/a'', alt = [], width = 120, height = 80, type = ''png'',
       elementType = ''img''\<rparr> (Fulfilled ''unknown'') Rejected)"
  using getImageInfoCoordinated_monotonic
    [of "\<lparr>src = ''https://site.com/a'', alt = [], width = 5, height = 5, type = ''svg'',
          elementType = ''img''\<rparr>" "Fulfilled ''png''" "Fulfilled (120, 80)"]
    getImageInfoCoordinated_monotonic
    [of "\<lparr>src = ''https://site.com/a'', alt = [], width = 120, height = 80, type = ''png'',
          elementType = ''img''\<rparr>" "Fulfilled ''unknown''" Rejected]
  by (simp add: getImageInfoCoordinated_def)

section \<open>Properties of \<open>split\<close> and \<open>join\<close>\<close>

lemma split_str_nonempty: "split_str sep s \<noteq> []"
  by (induction s) (auto split: list.splits)

lemma split_str_no_sep: "p \<in> set (split_str sep s) \<Longrightarrow> sep \<notin> set p"
  by (induction s arbitrary: p) (auto split: list.splits if_splits)

lemma split_str_chars: "\<forall>p\<in>set (split_str sep s). \<forall>x\<in>set p. x \<in> set s"
  by (induction s) (auto split: list.splits)

lemma split_str_subset: "p \<in> set (split_str sep s) \<Longrightarrow> set p \<subseteq> set s"
  using split_str_chars [of sep s] by auto

lemma split_str_no_occ: "sep \<notin> set s \<Longrightarrow> split_str sep s = [s]"
  by (induction s) auto

lemma split_str_append: "sep \<notin> set a \<Longrightarrow> split_str sep (a @ sep # b) = a # split_str sep b"
  by (induction a) (auto split: list.splits)

lemma split_str_sep_in:
  "sep \<in> set s \<Longrightarrow> \<exists>a b rest. split_str sep s = a # b # rest"
proof (induction s)
  case Nil
  then show ?case by simp
next
  case (Cons c cs)
  show ?case
  proof (cases "c = sep")
    case True
    then show ?thesis using split_str_nonempty [of sep cs] by (cases "split_str sep cs") auto
  next
    case False
    with Cons obtain a b rest where "split_str sep cs = a # b # rest" by auto
    with False show ?thesis by simp
  qed
qed

lemma includes_str_single: "includes_str s [c] \<longleftrightarrow> c \<in> set s"
  by (induction s) (auto simp: startsWith_def)

lemma join_str_set: "set (join_str sep ps) \<subseteq> insert sep (\<Union> (set ` set ps))"
  by (induction sep ps rule: join_str.induct) auto

lemma split_join:
  "ps \<noteq> [] \<Longrightarrow> \<forall>p\<in>set ps. sep \<notin> set p \<Longrightarrow> split_str sep (join_str sep ps) = ps"
proof (induction sep ps rule: join_str.induct)
  case (1 sep)
  then show ?case by simp
next
  case (2 sep p)
  then show ?case by (simp add: split_str_no_occ)
next
  case (3 sep p q ps)
  then show ?case by (simp add: split_str_append)
qed

section \<open>Properties of the source normalization\<close>

lemma normalizeUrl_no_query: "CHR ''?'' \<notin> set url \<Longrightarrow> normalizeUrl url = url"
  by (simp add: normalizeUrl_def includes_str_single)

text \<open>
  C6. Normalizing a source is idempotent: for every URL string, normalizing the normalized
  string gives it back.
\<close>

theorem normalizeUrl_idempotent: "normalizeUrl (normalizeUrl url) = normalizeUrl url"
proof (cases "CHR ''?'' \<in> set url")
  case False
  then show ?thesis by (simp add: normalizeUrl_no_query)
next
  case True
  then obtain baseUrl params rest where parts: "split_str CHR ''?'' url = baseUrl # params # rest"
    using split_str_sep_in by blast
  define paramPairs where "paramPairs = filter keptParam (split_str CHR ''&'' params)"
  have base: "CHR ''?'' \<notin> set baseUrl" and par: "CHR ''?'' \<notin> set params"
    using split_str_no_sep [of _ "CHR ''?''" url] parts by auto
  have n1: "normalizeUrl url =
      (if paramPairs \<noteq> [] then baseUrl @ ''?'' @ join_str CHR ''&'' paramPairs else baseUrl)"
    using True by (simp add: normalizeUrl_def includes_str_single parts paramPairs_def)
  show ?thesis
  proof (cases "paramPairs = []")
    case True
    with n1 base show ?thesis by (simp add: normalizeUrl_no_query)
  next
    case False
    have amp: "\<forall>p\<in>set paramPairs. CHR ''&'' \<notin> set p"
      using split_str_no_sep by (auto simp: paramPairs_def)
    have q: "\<forall>p\<in>set paramPairs. CHR ''?'' \<notin> set p"
      using split_str_subset [of _ "CHR ''&''" params] par by (auto simp: paramPairs_def)
    have jq: "CHR ''?'' \<notin> set (join_str CHR ''&'' paramPairs)"
      using join_str_set [of "CHR ''&''" paramPairs] q by auto
    let ?v = "baseUrl @ CHR ''?'' # join_str CHR ''&'' paramPairs"
    have sp: "split_str CHR ''?'' ?v = [baseUrl, join_str CHR ''&'' paramPairs]"
      using base jq by (simp add: split_str_append split_str_no_occ)
    have sj: "split_str CHR ''&'' (join_str CHR ''&'' paramPairs) = paramPairs"
      using False amp by (rule split_join)
    have fl: "filter keptParam paramPairs = paramPairs"
      by (simp add: paramPairs_def)
    have "normalizeUrl ?v = ?v"
      using False by (simp add: normalizeUrl_def includes_str_single sp sj fl)
    with n1 False show ?thesis by simp
  qed
qed

theorem normalizeUrl_idempotent_witness:
  "normalizeUrl (normalizeUrl ''https://site.com/a?utm_source=x&b=2'')
     = normalizeUrl ''https://site.com/a?utm_source=x&b=2''"
  using normalizeUrl_idempotent [of "''https://site.com/a?utm_source=x&b=2''"] by simp

section \<open>Properties of the final pass\<close>

lemma normalizeUrl_example:
  "normalizeUrl ''https://site.com/a?utm_source=x&b=2'' = ''https://site.com/a?b=2''"
  by code_simp

lemma sizeKept_src [simp]: "sizeKept (img\<lparr>src := s\<rparr>) = sizeKept img"
  by (simp add: sizeKept_def)

text \<open>The sources of the output: those already collected, and the new normalized ones.\<close>

lemma filterImages_srcs:
  "set (map src (filterImages images uniqueUrls filteredImages))
     = set (map src filteredImages)
       \<union> ((\<lambda>i. normalizeUrl (src i)) ` {i \<in> set images. sizeKept i} - uniqueUrls)"
proof (induction images arbitrary: uniqueUrls filteredImages)
  case Nil
  then show ?case by simp
next
  case (Cons img images)
  show ?case
  proof (cases "sizeKept img \<and> normalizeUrl (src img) \<notin> uniqueUrls")
    case True
    then show ?thesis
      using Cons.IH [of "insert (normalizeUrl (src img)) uniqueUrls"
          "filteredImages @ [img\<lparr>src := normalizeUrl (src img)\<rparr>]"]
      by (auto simp: Let_def)
  next
    case False
    then show ?thesis using Cons.IH [of uniqueUrls filteredImages] by (auto simp: Let_def)
  qed
qed

lemma filterImages_sizeKept:
  "\<forall>r\<in>set filteredImages. sizeKept r \<Longrightarrow>
   \<forall>r\<in>set (filterImages images uniqueUrls filteredImages). sizeKept r"
proof (induction images arbitrary: uniqueUrls filteredImages)
  case Nil
  then show ?case by simp
next
  case (Cons img images)
  show ?case
  proof (cases "sizeKept img \<and> normalizeUrl (src img) \<notin> uniqueUrls")
    case True
    have "\<forall>r\<in>set (filteredImages @ [img\<lparr>src := normalizeUrl (src img)\<rparr>]). sizeKept r"
      using True Cons.prems by simp
    from Cons.IH [OF this] True show ?thesis by (simp add: Let_def)
  next
    case False
    with Cons.IH [OF Cons.prems] show ?thesis by (auto simp: Let_def)
  qed
qed

lemma filterImages_distinct:
  "distinct (map src filteredImages) \<Longrightarrow> set (map src filteredImages) \<subseteq> uniqueUrls \<Longrightarrow>
   distinct (map src (filterImages images uniqueUrls filteredImages))"
proof (induction images arbitrary: uniqueUrls filteredImages)
  case Nil
  then show ?case by simp
next
  case (Cons img images)
  show ?case
  proof (cases "sizeKept img \<and> normalizeUrl (src img) \<notin> uniqueUrls")
    case True
    have "distinct (map src (filteredImages @ [img\<lparr>src := normalizeUrl (src img)\<rparr>]))"
      using Cons.prems True by auto
    moreover have "set (map src (filteredImages @ [img\<lparr>src := normalizeUrl (src img)\<rparr>]))
        \<subseteq> insert (normalizeUrl (src img)) uniqueUrls"
      using Cons.prems by auto
    ultimately show ?thesis using True Cons.IH by (simp add: Let_def)
  next
    case False
    then show ?thesis using Cons.IH [OF Cons.prems] by (auto simp: Let_def)
  qed
qed

text \<open>
  The records of the output with a given source: those already collected, then the first
  candidate that passes the size filter and normalizes to that source.
\<close>

lemma filterImages_first:
  "filter (\<lambda>r. src r = s) (filterImages images uniqueUrls filteredImages)
     = filter (\<lambda>r. src r = s) filteredImages
       @ (if s \<in> uniqueUrls then []
          else (case find (\<lambda>i. sizeKept i \<and> normalizeUrl (src i) = s) images of
                  None \<Rightarrow> []
                | Some i \<Rightarrow> [i\<lparr>src := s\<rparr>]))"
proof (induction images arbitrary: uniqueUrls filteredImages)
  case Nil
  then show ?case by simp
next
  case (Cons img images)
  show ?case
  proof (cases "sizeKept img \<and> normalizeUrl (src img) \<notin> uniqueUrls")
    case True
    then show ?thesis by (auto simp: Cons.IH Let_def)
  next
    case False
    then show ?thesis by (auto simp: Cons.IH Let_def)
  qed
qed

text \<open>
  C5 as stated fails: the size test encloses the deduplication. Two candidates of 5 by 5
  whose sources normalize to the same string give no record at all, and when the first of
  two such candidates is 5 by 5 and the second 100 by 100, the record kept is the second.
\<close>

theorem finalPass_small_duplicates:
  "normalizeUrl ''https://site.com/a?utm_source=x&b=2''
     = normalizeUrl ''https://site.com/a?b=2&gclid=7''
   \<and> finalPass
        [\<lparr>src = ''https://site.com/a?utm_source=x&b=2'', alt = ''first'', width = 5,
          height = 5, type = ''unknown'', elementType = ''img''\<rparr>,
         \<lparr>src = ''https://site.com/a?b=2&gclid=7'', alt = ''second'', width = 5,
          height = 5, type = ''unknown'', elementType = ''img''\<rparr>] = []
   \<and> finalPass
        [\<lparr>src = ''https://site.com/a?utm_source=x&b=2'', alt = ''first'', width = 5,
          height = 5, type = ''unknown'', elementType = ''img''\<rparr>,
         \<lparr>src = ''https://site.com/a?b=2&gclid=7'', alt = ''second'', width = 100,
          height = 100, type = ''unknown'', elementType = ''img''\<rparr>]
       = [\<lparr>src = ''https://site.com/a?b=2'', alt = ''second'', width = 100,
           height = 100, type = ''unknown'', elementType = ''img''\<rparr>]"
proof -
  have n1: "normalizeUrl ''https://site.com/a?utm_source=x&b=2'' = ''https://site.com/a?b=2''"
    by code_simp
  have n2: "normalizeUrl ''https://site.com/a?b=2&gclid=7'' = ''https://site.com/a?b=2''"
    by code_simp
  show ?thesis
    by (simp add: finalPass_def sizeKept_def minWidth_def minHeight_def n1 n2)
qed

text \<open>
  C5, amended. In the output of the final pass the (normalized) sources are pairwise
  different. For every string, the output holds at most one record with that source: the
  first of the candidates that pass the size filter and whose source normalizes to it,
  with its source replaced by the normalized one (and none when no such candidate passes
  the size filter). So two candidates that pass the size filter and normalize to the same
  string give one record, the first. The URL \<open>https://site.com/a?utm_source=x&b=2\<close>
  normalizes to \<open>https://site.com/a?b=2\<close>.
\<close>

theorem finalPass_unique_sources:
  "distinct (map src (finalPass images))
   \<and> filter (\<lambda>r. src r = s) (finalPass images)
       = (case find (\<lambda>i. sizeKept i \<and> normalizeUrl (src i) = s) images of
            None \<Rightarrow> []
          | Some i \<Rightarrow> [i\<lparr>src := s\<rparr>])
   \<and> (sizeKept a \<and> sizeKept b \<and> normalizeUrl (src a) = normalizeUrl (src b) \<longrightarrow>
        finalPass [a, b] = [a\<lparr>src := normalizeUrl (src a)\<rparr>])
   \<and> normalizeUrl ''https://site.com/a?utm_source=x&b=2'' = ''https://site.com/a?b=2''"
proof -
  have "distinct (map src (finalPass images))"
    unfolding finalPass_def by (rule filterImages_distinct) simp_all
  moreover have "filter (\<lambda>r. src r = s) (finalPass images)
       = (case find (\<lambda>i. sizeKept i \<and> normalizeUrl (src i) = s) images of
            None \<Rightarrow> []
          | Some i \<Rightarrow> [i\<lparr>src := s\<rparr>])"
    unfolding finalPass_def by (simp add: filterImages_first)
  moreover have "finalPass [a, b] = [a\<lparr>src := normalizeUrl (src a)\<rparr>]"
    if "sizeKept a" "sizeKept b" "normalizeUrl (src a) = normalizeUrl (src b)"
    using that by (simp add: finalPass_def Let_def)
  ultimately show ?thesis using normalizeUrl_example by blast
qed

text \<open>
  Two candidates of 100 by 100 whose sources differ only in tracking parameters: one
  record, the first, with the normalized source.
\<close>

theorem finalPass_unique_sources_witness:
  "sizeKept \<lparr>src = ''https://site.com/a?utm_source=x&b=2'', alt = ''first'', width = 100,
              height = 100, type = ''unknown'', elementType = ''img''\<rparr>
   \<and> sizeKept \<lparr>src = ''https://site.com/a?b=2&gclid=7'', alt = ''second'', width = 100,
                height = 100, type = ''unknown'', elementType = ''img''\<rparr>
   \<and> normalizeUrl ''https://site.com/a?utm_source=x&b=2''
       = normalizeUrl ''https://site.com/a?b=2&gclid=7''
   \<and> finalPass
        [\<lparr>src = ''https://site.com/a?utm_source=x&b=2'', alt = ''first'', width = 100,
          height = 100, type = ''unknown'', elementType = ''img''\<rparr>,
         \<lparr>src = ''https://site.com/a?b=2&gclid=7'', alt = ''second'', width = 100,
          height = 100, type = ''unknown'', elementType = ''img''\<rparr>]
       = [\<lparr>src = ''https://site.com/a?b=2'', alt = ''first'', width = 100,
           height = 100, type = ''unknown'', elementType = ''img''\<rparr>]"
proof -
  have n: "normalizeUrl ''https://site.com/a?b=2&gclid=7'' = ''https://site.com/a?b=2''"
    by code_simp
  have k: "sizeKept \<lparr>src = u, alt = t, width = 100, height = 100, type = ''unknown'',
                     elementType = ''img''\<rparr>" for u t
    by (simp add: sizeKept_def minWidth_def)
  show ?thesis
    using finalPass_unique_sources
      [of _ _ "\<lparr>src = ''https://site.com/a?utm_source=x&b=2'', alt = ''first'', width = 100,
                 height = 100, type = ''unknown'', elementType = ''img''\<rparr>"
          "\<lparr>src = ''https://site.com/a?b=2&gclid=7'', alt = ''second'', width = 100,
            height = 100, type = ''unknown'', elementType = ''img''\<rparr>"]
    by (simp add: n k)
qed

text \<open>
  C4 as stated fails: a record of width 0 (unknown) and height 5 is removed, although not
  both of its dimensions are known.
\<close>

theorem finalPass_drops_half_known:
  "finalPass [\<lparr>src = ''https://site.com/a.png'', alt = [], width = 0, height = 5,
               type = ''png'', elementType = ''img''\<rparr>] = []
   \<and> width \<lparr>src = ''https://site.com/a.png'', alt = [], width = 0, height = 5,
             type = ''png'', elementType = ''img''\<rparr> = 0"
  by (simp add: finalPass_def sizeKept_def minWidth_def minHeight_def)

text \<open>
  C4, amended. The final loop removes a record exactly when its width and its height are
  both below 10 and are not both 0: a record of 5 by 5 is removed, a record of 0 by 0 is
  kept. The sources of the output are the normalized sources of the records that pass this
  test, and every record of the output passes it.
\<close>

theorem finalPass_size_filter:
  "(sizeKept img \<longleftrightarrow>
      \<not> (width img < 10 \<and> height img < 10 \<and> \<not> (width img = 0 \<and> height img = 0)))
   \<and> set (map src (finalPass images))
       = (\<lambda>i. normalizeUrl (src i)) ` {i \<in> set images. sizeKept i}
   \<and> (\<forall>r\<in>set (finalPass images). sizeKept r)
   \<and> (width img = 5 \<and> height img = 5 \<longrightarrow> finalPass [img] = [])
   \<and> (width img = 0 \<and> height img = 0 \<longrightarrow>
        finalPass [img] = [img\<lparr>src := normalizeUrl (src img)\<rparr>])"
proof -
  have "sizeKept img \<longleftrightarrow>
      \<not> (width img < 10 \<and> height img < 10 \<and> \<not> (width img = 0 \<and> height img = 0))"
    by (auto simp: sizeKept_def minWidth_def minHeight_def)
  moreover have "set (map src (finalPass images))
       = (\<lambda>i. normalizeUrl (src i)) ` {i \<in> set images. sizeKept i}"
    unfolding finalPass_def using filterImages_srcs [of images "{}" "[]"] by simp
  moreover have "\<forall>r\<in>set (finalPass images). sizeKept r"
    unfolding finalPass_def by (rule filterImages_sizeKept) simp
  moreover have "finalPass [img] = []" if "width img = 5 \<and> height img = 5"
    using that by (simp add: finalPass_def sizeKept_def minWidth_def minHeight_def)
  moreover have "finalPass [img] = [img\<lparr>src := normalizeUrl (src img)\<rparr>]"
    if "width img = 0 \<and> height img = 0"
    using that by (simp add: finalPass_def sizeKept_def Let_def)
  ultimately show ?thesis by blast
qed

theorem finalPass_size_filter_witness:
  "finalPass [\<lparr>src = ''https://site.com/a.png'', alt = [], width = 5, height = 5,
               type = ''png'', elementType = ''img''\<rparr>] = []
   \<and> finalPass [\<lparr>src = ''https://site.com/a.png'', alt = [], width = 0, height = 0,
                 type = ''png'', elementType = ''img''\<rparr>]
       = [\<lparr>src = ''https://site.com/a.png'', alt = [], width = 0, height = 0,
           type = ''png'', elementType = ''img''\<rparr>]
   \<and> \<not> sizeKept \<lparr>src = ''https://site.com/a.png'', alt = [], width = 5, height = 5,
                   type = ''png'', elementType = ''img''\<rparr>"
proof -
  have n: "normalizeUrl ''https://site.com/a.png'' = ''https://site.com/a.png''"
    by code_simp
  show ?thesis
    using finalPass_size_filter
      [of "\<lparr>src = ''https://site.com/a.png'', alt = [], width = 5, height = 5,
            type = ''png'', elementType = ''img''\<rparr>" "[]"]
      finalPass_size_filter
      [of "\<lparr>src = ''https://site.com/a.png'', alt = [], width = 0, height = 0,
            type = ''png'', elementType = ''img''\<rparr>"
          "[\<lparr>src = ''https://site.com/a.png'', alt = [], width = 0, height = 0,
             type = ''png'', elementType = ''img''\<rparr>]"]
    by (simp add: n)
qed

section \<open>Properties of the URL heuristic classifier\<close>

lemma lazyUntilSemicolon_subtype:
  assumes "\<forall>c\<in>set subtype. c \<noteq> CHR '';'' \<and> \<not> isLineTerminator c"
  shows "lazyUntilSemicolon (subtype @ CHR '';'' # rest) = Some subtype"
proof -
  have "takeWhile (\<lambda>c. c \<noteq> CHR '';'' \<and> \<not> isLineTerminator c) (subtype @ CHR '';'' # rest)
      = subtype"
    using assms by (simp add: takeWhile_append2)
  then show ?thesis by (simp add: lazyUntilSemicolon_def startsWith_def)
qed

text \<open>
  What the data-URI branch does: it returns the declared subtype as it is written, with
  no case folding and no \<open>jpeg\<close> to \<open>jpg\<close>.
\<close>

lemma data_uri_subtype_verbatim:
  assumes "\<forall>c\<in>set subtype. c \<noteq> CHR '';'' \<and> \<not> isLineTerminator c"
  shows "getImageType (''data:image/'' @ subtype @ CHR '';'' # rest) = subtype"
  using lazyUntilSemicolon_subtype [OF assms, of rest]
  by (simp add: getImageType_def startsWith_def)

text \<open>
  C7. The data URI \<open>data:image/jpeg;base64,/9j/4AAQ\<close> is classified \<open>jpeg\<close>, not \<open>jpg\<close>,
  and \<open>data:image/PNG;base64,iVBORw0KGgo=\<close> is classified \<open>PNG\<close>, not \<open>png\<close>: the data-URI
  branch of \<open>getImageType\<close> returns the declared subtype unchanged, where the extension
  branch of the same function lower-cases and maps \<open>jpeg\<close> to \<open>jpg\<close>.
\<close>

theorem getImageType_data_uri_raw_subtype:
  "getImageType ''data:image/jpeg;base64,/9j/4AAQ'' = ''jpeg''
   \<and> getImageType ''data:image/PNG;base64,iVBORw0KGgo='' = ''PNG''
   \<and> getImageType ''https://site.com/img.JPEG?x=1'' = ''jpg''"
  by code_simp

lemma firstKeywordHit_keywordScan: "firstKeywordHit keywordPriority u = keywordScan u"
  by (simp add: firstKeywordHit_def keywordPriority_def keywordScan_def)

text \<open>
  C8 as stated fails: \<open>http://localhost/photo-png-jpg\<close> is no data URI and has no
  extension, it contains both \<open>png\<close> and \<open>jpg\<close>, the order in which the specification lists
  the keywords picks \<open>png\<close>, and \<open>getImageType\<close> returns \<open>jpg\<close>.
\<close>

theorem getImageType_keyword_png_jpg:
  "\<not> startsWith ''http://localhost/photo-png-jpg'' ''data:image/''
   \<and> matchExtension (cleanUrlOf ''http://localhost/photo-png-jpg'') = None
   \<and> includes_str (toLowerCase ''http://localhost/photo-png-jpg'') ''png''
   \<and> includes_str (toLowerCase ''http://localhost/photo-png-jpg'') ''jpg''
   \<and> firstKeywordHit listedPriority (toLowerCase ''http://localhost/photo-png-jpg'')
       = Some ''png''
   \<and> getImageType ''http://localhost/photo-png-jpg'' = ''jpg''"
  by code_simp

text \<open>
  C8, amended. For every URL that is no data URI and in which the extension pattern finds
  nothing, \<open>getImageType\<close> scans the lower-cased URL for the format keywords in the order
  jpg/jpeg, png, svg, webp, gif, bmp, ico, tiff/tif, apng, avif and returns the tag of the
  first keyword present; for such a URL that contains both \<open>png\<close> and \<open>jpg\<close> the result is
  \<open>jpg\<close>.
\<close>

theorem getImageType_keyword_priority:
  assumes "\<not> startsWith url ''data:image/''"
    and "matchExtension (cleanUrlOf url) = None"
  shows "(firstKeywordHit keywordPriority (toLowerCase url) = Some t \<longrightarrow> getImageType url = t)
       \<and> (includes_str (toLowerCase url) ''png'' \<and> includes_str (toLowerCase url) ''jpg'' \<longrightarrow>
            getImageType url = ''jpg'')"
proof -
  have scan: "getImageType url = t'" if "keywordScan (toLowerCase url) = Some t'" for t'
    using assms that by (simp add: getImageType_def Let_def orNext_def)
  have "keywordScan (toLowerCase url) = Some ''jpg''"
    if "includes_str (toLowerCase url) ''jpg''"
    using that by (simp add: keywordScan_def)
  with scan show ?thesis by (auto simp: firstKeywordHit_keywordScan)
qed

theorem getImageType_keyword_priority_witness:
  "\<not> startsWith ''http://localhost/photo-png-jpg'' ''data:image/''
   \<and> matchExtension (cleanUrlOf ''http://localhost/photo-png-jpg'') = None
   \<and> firstKeywordHit keywordPriority (toLowerCase ''http://localhost/photo-png-jpg'')
       = Some ''jpg''
   \<and> includes_str (toLowerCase ''http://localhost/photo-png-jpg'') ''png''
   \<and> includes_str (toLowerCase ''http://localhost/photo-png-jpg'') ''jpg''
   \<and> getImageType ''http://localhost/photo-png-jpg'' = ''jpg''"
proof -
  have h1: "\<not> startsWith ''http://localhost/photo-png-jpg'' ''data:image/''"
    by code_simp
  have h2: "matchExtension (cleanUrlOf ''http://localhost/photo-png-jpg'') = None"
    by code_simp
  have h3: "firstKeywordHit keywordPriority (toLowerCase ''http://localhost/photo-png-jpg'')
       = Some ''jpg''"
    by code_simp
  have h4: "includes_str (toLowerCase ''http://localhost/photo-png-jpg'') ''png''
      \<and> includes_str (toLowerCase ''http://localhost/photo-png-jpg'') ''jpg''"
    by code_simp
  from getImageType_keyword_priority [OF h1 h2, of "''jpg''"] h1 h2 h3 h4
  show ?thesis by blast
qed

section \<open>Properties of the network resolution\<close>

lemma urlFallback_firstMimeHit:
  "urlFallback url = (case firstMimeHit (toLowerCase url) of Some t \<Rightarrow> t | None \<Rightarrow> ''unknown'')"
  by (simp add: urlFallback_def firstMimeHit_def mimeSubstrings_def Let_def)

lemma urlFallback_tag: "urlFallback url \<in> set (''svg'' # imageTags)"
  by (simp add: urlFallback_def imageTags_def Let_def)

lemma opaqueType_tag: "opaqueType header = Inr t \<Longrightarrow> t \<in> set (''svg'' # imageTags)"
  by (auto simp: opaqueType_def imageTags_def Let_def startsWith_def
      split: option.splits if_splits)

lemma fetchType_tag: "fetchType cors noCors = Inr t \<Longrightarrow> t \<in> set (''svg'' # imageTags)"
  using detectImageTypeByMagicNumber_tag
  by (auto simp: fetchType_def dest: opaqueType_tag split: option.splits if_splits)

lemma fetchType_all_reject: "fetchType FetchRejects FetchRejects = Inl NetworkError"
  by (simp add: fetchType_def)

text \<open>
  An opaque response without a \<open>Content-Type\<close> header makes the \<open>try\<close> block throw, and the
  URL scan decides.
\<close>

lemma getImageTypeByFetch_opaque_no_header:
  "opaque r \<Longrightarrow> contentType r = None \<Longrightarrow>
   getImageTypeByFetch url FetchRejects (FetchResolves r) = urlFallback url"
  by (simp add: getImageTypeByFetch_def fetchType_def opaqueType_def)

text \<open>
  C10 as stated fails: a fetch that resolves with a response that is neither \<open>ok\<close> nor
  opaque makes the loop go on, but the response stays in \<open>response\<close>. When both fetches end
  like this (two \<open>404\<close> pages), or the second one rejects, the body of that response is
  sniffed and the URL is not consulted: for a URL that contains \<open>image/png\<close> the result is
  \<open>unknown\<close>, where the scan of the URL gives \<open>png\<close>.
\<close>

theorem getImageTypeByFetch_not_ok_body_sniffed:
  "getImageTypeByFetch ''https://site.com/x?m=image/png''
     (FetchResolves \<lparr>ok = False, opaque = False, contentType = Some ''text/html'',
        arrayBuffer = Some [0x3C, 0x68, 0x74, 0x6D, 0x6C, 0x3E]\<rparr>)
     (FetchResolves \<lparr>ok = False, opaque = False, contentType = Some ''text/html'',
        arrayBuffer = Some [0x3C, 0x68, 0x74, 0x6D, 0x6C, 0x3E]\<rparr>) = ''unknown''
   \<and> getImageTypeByFetch ''https://site.com/x?m=image/png''
     (FetchResolves \<lparr>ok = False, opaque = False, contentType = Some ''text/html'',
        arrayBuffer = Some [0x3C, 0x68, 0x74, 0x6D, 0x6C, 0x3E]\<rparr>) FetchRejects = ''unknown''
   \<and> firstMimeHit (toLowerCase ''https://site.com/x?m=image/png'') = Some ''png''"
proof -
  have "firstMimeHit (toLowerCase ''https://site.com/x?m=image/png'') = Some ''png''"
    by code_simp
  then show ?thesis
    by (simp add: getImageTypeByFetch_def fetchType_def sniff_eval)
qed

text \<open>
  C10, amended. \<open>getImageTypeByFetch\<close> never rejects: whatever the two fetches do, it
  resolves to a tag. Whenever its \<open>try\<close> block throws, and so when both fetches reject and no
  response is obtained, it resolves to the result of the URL scan: the tag of the first of
  the substrings \<open>image/jpeg\<close>, \<open>image/jpg\<close> (both \<open>jpg\<close>), \<open>image/png\<close>, \<open>image/gif\<close>,
  \<open>image/webp\<close>, \<open>image/bmp\<close>, \<open>image/svg\<close>, \<open>image/avif\<close>, \<open>image/tiff\<close>, \<open>image/ico\<close>
  that occurs in the lower-cased URL, and \<open>unknown\<close> when none occurs.
\<close>

theorem getImageTypeByFetch_never_rejects:
  "getImageTypeByFetch url cors noCors \<in> set (''svg'' # imageTags)
   \<and> (fetchType cors noCors = Inl e \<longrightarrow>
        getImageTypeByFetch url cors noCors
          = (case firstMimeHit (toLowerCase url) of Some t \<Rightarrow> t | None \<Rightarrow> ''unknown''))
   \<and> getImageTypeByFetch url FetchRejects FetchRejects
       = (case firstMimeHit (toLowerCase url) of Some t \<Rightarrow> t | None \<Rightarrow> ''unknown'')
   \<and> ((\<forall>row\<in>set mimeSubstrings. \<not> includes_str (toLowerCase url) (fst row)) \<longrightarrow>
        getImageTypeByFetch url FetchRejects FetchRejects = ''unknown'')"
proof -
  have tag: "getImageTypeByFetch url cors noCors \<in> set (''svg'' # imageTags)"
  proof (cases "fetchType cors noCors")
    case (Inl err)
    then show ?thesis using urlFallback_tag [of url] by (simp add: getImageTypeByFetch_def)
  next
    case (Inr t)
    then show ?thesis using fetchType_tag [OF Inr] by (simp add: getImageTypeByFetch_def)
  qed
  have thrown: "getImageTypeByFetch url cors noCors
      = (case firstMimeHit (toLowerCase url) of Some t \<Rightarrow> t | None \<Rightarrow> ''unknown'')"
    if "fetchType cors noCors = Inl e"
    using that by (simp add: getImageTypeByFetch_def urlFallback_firstMimeHit)
  have rejects: "getImageTypeByFetch url FetchRejects FetchRejects
      = (case firstMimeHit (toLowerCase url) of Some t \<Rightarrow> t | None \<Rightarrow> ''unknown'')"
    by (simp add: getImageTypeByFetch_def fetchType_all_reject urlFallback_firstMimeHit)
  have none: "firstMimeHit (toLowerCase url) = None"
    if "\<forall>row\<in>set mimeSubstrings. \<not> includes_str (toLowerCase url) (fst row)"
    using that by (fastforce simp: firstMimeHit_def find_None_iff)
  from tag thrown rejects none show ?thesis by simp
qed

theorem getImageTypeByFetch_never_rejects_witness:
  "fetchType FetchRejects FetchRejects = Inl NetworkError
   \<and> getImageTypeByFetch ''https://cdn.site.com/get?mime=image/PNG&id=3'' FetchRejects
        FetchRejects = ''png''
   \<and> firstMimeHit (toLowerCase ''https://site.com/photo'') = None
   \<and> getImageTypeByFetch ''https://site.com/photo'' FetchRejects FetchRejects = ''unknown''"
proof -
  have h1: "firstMimeHit (toLowerCase ''https://cdn.site.com/get?mime=image/PNG&id=3'')
      = Some ''png''"
    by code_simp
  have h2: "\<forall>row\<in>set mimeSubstrings.
      \<not> includes_str (toLowerCase ''https://site.com/photo'') (fst row)"
    by code_simp
  have a: "getImageTypeByFetch ''https://cdn.site.com/get?mime=image/PNG&id=3'' FetchRejects
      FetchRejects = ''png''"
    using getImageTypeByFetch_never_rejects
      [of "''https://cdn.site.com/get?mime=image/PNG&id=3''" FetchRejects FetchRejects
        NetworkError]
    by (simp only: h1 option.case)
  have b: "getImageTypeByFetch ''https://site.com/photo'' FetchRejects FetchRejects = ''unknown''"
    using getImageTypeByFetch_never_rejects
      [of "''https://site.com/photo''" FetchRejects FetchRejects NetworkError] h2
    by blast
  have h3: "firstMimeHit (toLowerCase ''https://site.com/photo'') = None"
    by code_simp
  from a b h3 fetchType_all_reject show ?thesis by blast
qed

section \<open>Properties of the SVG dimension resolver\<close>

lemma toThe_eq: "0 \<le> k \<Longrightarrow> toThe b k = b ^ nat k"
proof (induction b k rule: toThe.induct)
  case (1 b k)
  show ?case
  proof (cases "k = 0")
    case True
    then show ?thesis by (simp add: toThe.simps)
  next
    case False
    with 1 have pos: "0 < k" by simp
    show ?thesis
    proof (cases "even k")
      case True
      then obtain j where j: "k = 2 * j" by (elim evenE)
      with pos have j0: "0 \<le> j" by simp
      have "toThe b (k div 2) = b ^ nat j"
        using 1(1) pos True j j0 by simp
      moreover have "nat k = nat j + nat j" using j j0 by simp
      ultimately show ?thesis
        using pos True by (subst toThe.simps) (simp add: Let_def power_add)
    next
      case False
      have "toThe b (k - 1) = b ^ nat (k - 1)"
        using 1(2) pos False by simp
      moreover have "nat k = Suc (nat (k - 1))" using pos by simp
      ultimately show ?thesis
        using pos False by (subst toThe.simps) simp
    qed
  qed
qed

lemma pow2_eq: "pow2 e = (if 0 \<le> e then 2 ^ nat e else 1 / 2 ^ nat (- e))"
  by (simp add: pow2_def toThe_eq)

lemma positive_truthy: "positive n \<Longrightarrow> truthy (Number n)"
  by (cases n) auto

lemma splitSpaces_nonempty_viewBox:
  "4 \<le> length (filter (\<lambda>part. part \<noteq> []) (splitSpaces viewBox)) \<Longrightarrow> viewBox \<noteq> []"
  by (cases viewBox) auto

lemma fromViewBox_Null:
  assumes "viewBoxParts = filter (\<lambda>part. part \<noteq> []) (splitSpaces viewBox)"
    and "4 \<le> length viewBoxParts"
  shows "fromViewBox viewBox (Null, Null)
      = (Number (parseFloat (viewBoxParts ! 2)), Number (parseFloat (viewBoxParts ! 3)))"
  using assms by (simp add: fromViewBox_def Let_def)

lemma validated_positive:
  "positive a \<Longrightarrow> positive b \<Longrightarrow>
   validated (Number a) (Number b) = Some (roundClamped a, roundClamped b)"
  by (simp add: validated_def positive_truthy)

lemma fxpDimensions_viewBox:
  assumes "viewBoxParts = filter (\<lambda>part. part \<noteq> []) (splitSpaces viewBox)"
    and "4 \<le> length viewBoxParts"
    and "positive (parseFloat (viewBoxParts ! 2))"
    and "positive (parseFloat (viewBoxParts ! 3))"
    and "fxWidth e = None" and "fxHeight e = None" and "fxViewBox e = Some (FStr viewBox)"
  shows "fxpDimensions e
      = Inr (Some (roundClamped (parseFloat (viewBoxParts ! 2)),
                   roundClamped (parseFloat (viewBoxParts ! 3))))"
proof -
  have ne: "viewBox \<noteq> []"
    using assms(1,2) splitSpaces_nonempty_viewBox by blast
  show ?thesis
    using assms(3-7) ne fromViewBox_Null [OF assms(1,2)]
    by (simp add: fxpDimensions_def fxpString_def fromAttribute_def validated_positive
        positive_truthy)
qed

lemma domDimensions_viewBox:
  assumes "viewBoxParts = filter (\<lambda>part. part \<noteq> []) (splitSpaces viewBox)"
    and "4 \<le> length viewBoxParts"
    and "positive (parseFloat (viewBoxParts ! 2))"
    and "positive (parseFloat (viewBoxParts ! 3))"
    and "widthAttr d = None" and "heightAttr d = None" and "viewBoxAttr d = Some viewBox"
  shows "domDimensions d
      = Some (roundClamped (parseFloat (viewBoxParts ! 2)),
              roundClamped (parseFloat (viewBoxParts ! 3)))"
proof -
  have ne: "viewBox \<noteq> []"
    using assms(1,2) splitSpaces_nonempty_viewBox by blast
  show ?thesis
    using assms(3-7) ne fromViewBox_Null [OF assms(1,2)]
    by (simp add: domDimensions_def unlessBoth_def fromAttribute_def validated_positive
        positive_truthy Let_def)
qed

lemma roundClamped_integer:
  "1 \<le> n \<Longrightarrow> n \<le> 50000 \<Longrightarrow> roundClamped (Fin (of_int n)) = n"
proof -
  assume "1 \<le> n" "n \<le> 50000"
  then have "min (max (of_int n :: rat) 1) 50000 = of_int n"
    by (simp add: min_def max_def)
  moreover have "\<lfloor>(of_int n :: rat) + 1 / 2\<rfloor> = n"
    by linarith
  ultimately show ?thesis by simp
qed

lemma roundClamped_range: "positive x \<Longrightarrow> 1 \<le> roundClamped x \<and> roundClamped x \<le> 50000"
proof (cases x)
  case (Fin r)
  have "1 \<le> min (max r 1) 50000" "min (max r 1) 50000 \<le> 50000"
    by (simp_all add: min_def max_def)
  then have "1 \<le> \<lfloor>min (max r 1) 50000 + 1 / 2\<rfloor>" "\<lfloor>min (max r 1) 50000 + 1 / 2\<rfloor> \<le> 50000"
    by linarith+
  with Fin show ?thesis by simp
qed simp_all

text \<open>
  Decimal literals are rounded to the nearest binary64 value: \<open>2.4999999999999999\<close> is read
  as \<open>2.5\<close>, and \<open>0.1\<close> as the binary fraction next to it.
\<close>

lemma parseFloat_binary64:
  "parseFloat ''2.4999999999999999'' = Fin (5 / 2)
   \<and> parseFloat ''0.1'' = Fin (3602879701896397 / 36028797018963968)
   \<and> parseFloat ''120'' = Fin 120"
  by code_simp

text \<open>
  C9 as stated fails: for a root element without width and height whose \<open>viewBox\<close> is
  \<open>0 0 100000 80\<close>, the result is \<open>{50000, 80}\<close>, not the third and fourth components
  \<open>{100000, 80}\<close>; for \<open>0 0 120.6 80\<close> it is \<open>{121, 80}\<close>. This holds on the path of the first
  parser and on the fallback path. A \<open>viewBox\<close> whose four numbers are separated by commas
  only, \<open>0,0,120,80\<close>, is not split at all and gives \<open>{0, 0}\<close>.
\<close>

theorem viewBox_components_clamped_rounded:
  "parseSvgDimensions
     (FxpParsed (Some \<lparr>fxWidth = None, fxHeight = None,
        fxViewBox = Some (FStr ''0 0 100000 80''), fxStyle = None\<rparr>))
     (DomParsed (Some \<lparr>widthAttr = None, heightAttr = None,
        viewBoxAttr = Some ''0 0 100000 80'', styleAttr = None, computedWidth = [],
        computedHeight = [], firstPathBBox = NoDrawable\<rparr>)) = (50000, 80)
   \<and> parseSvgDimensions FxpMissing
     (DomParsed (Some \<lparr>widthAttr = None, heightAttr = None,
        viewBoxAttr = Some ''0 0 100000 80'', styleAttr = None, computedWidth = [],
        computedHeight = [], firstPathBBox = NoDrawable\<rparr>)) = (50000, 80)
   \<and> parseSvgDimensions FxpMissing
     (DomParsed (Some \<lparr>widthAttr = None, heightAttr = None,
        viewBoxAttr = Some ''0 0 120.6 80'', styleAttr = None, computedWidth = [],
        computedHeight = [], firstPathBBox = NoDrawable\<rparr>)) = (121, 80)
   \<and> parseSvgDimensions FxpMissing
     (DomParsed (Some \<lparr>widthAttr = None, heightAttr = None,
        viewBoxAttr = Some ''0,0,120,80'', styleAttr = None, computedWidth = [],
        computedHeight = [], firstPathBBox = NoDrawable\<rparr>)) = (0, 0)"
  by code_simp

text \<open>
  C9, amended. Let the root element have no width and no height attribute and a \<open>viewBox\<close>
  attribute that splits at white space (not at commas) into at least four non-empty parts,
  the third and the fourth of which \<open>parseFloat\<close> reads as positive numbers (after rounding
  to binary64, so that a literal that underflows to 0 is not among them). Then
  \<open>parseSvgDimensions\<close> returns these two numbers, each clamped to the range from 1 to 50000
  and rounded to the nearest integer: on the path of the first parser when it yields this
  root element, and on the fallback path when the first parser is missing, throws or finds
  no root. Both results lie between 1 and 50000, and a component that is read as an integer
  of at most 50000 is returned as it is.
\<close>

theorem parseSvgDimensions_viewBox:
  assumes "viewBoxParts = filter (\<lambda>part. part \<noteq> []) (splitSpaces viewBox)"
    and "4 \<le> length viewBoxParts"
    and "positive (parseFloat (viewBoxParts ! 2))"
    and "positive (parseFloat (viewBoxParts ! 3))"
  shows "(fxWidth e = None \<and> fxHeight e = None \<and> fxViewBox e = Some (FStr viewBox) \<longrightarrow>
            parseSvgDimensions (FxpParsed (Some e)) svgDoc
              = (roundClamped (parseFloat (viewBoxParts ! 2)),
                 roundClamped (parseFloat (viewBoxParts ! 3))))
       \<and> ((fxp = FxpMissing \<or> fxp = FxpThrows \<or> fxp = FxpParsed None)
            \<and> widthAttr d = None \<and> heightAttr d = None \<and> viewBoxAttr d = Some viewBox \<longrightarrow>
            parseSvgDimensions fxp (DomParsed (Some d))
              = (roundClamped (parseFloat (viewBoxParts ! 2)),
                 roundClamped (parseFloat (viewBoxParts ! 3))))
       \<and> 1 \<le> roundClamped (parseFloat (viewBoxParts ! 2))
       \<and> roundClamped (parseFloat (viewBoxParts ! 2)) \<le> 50000
       \<and> 1 \<le> roundClamped (parseFloat (viewBoxParts ! 3))
       \<and> roundClamped (parseFloat (viewBoxParts ! 3)) \<le> 50000
       \<and> (parseFloat (viewBoxParts ! 2) = Fin (of_int n) \<and> n \<le> 50000 \<longrightarrow>
            roundClamped (parseFloat (viewBoxParts ! 2)) = n)
       \<and> (parseFloat (viewBoxParts ! 3) = Fin (of_int m) \<and> m \<le> 50000 \<longrightarrow>
            roundClamped (parseFloat (viewBoxParts ! 3)) = m)"
proof -
  have fx: "parseSvgDimensions (FxpParsed (Some e)) svgDoc
      = (roundClamped (parseFloat (viewBoxParts ! 2)),
         roundClamped (parseFloat (viewBoxParts ! 3)))"
    if "fxWidth e = None" "fxHeight e = None" "fxViewBox e = Some (FStr viewBox)"
    using fxpDimensions_viewBox [OF assms that] by (simp add: parseSvgDimensions_def)
  have dm: "parseSvgDimensions fxp (DomParsed (Some d))
      = (roundClamped (parseFloat (viewBoxParts ! 2)),
         roundClamped (parseFloat (viewBoxParts ! 3)))"
    if "fxp = FxpMissing \<or> fxp = FxpThrows \<or> fxp = FxpParsed None"
      "widthAttr d = None" "heightAttr d = None" "viewBoxAttr d = Some viewBox"
    using domDimensions_viewBox [OF assms that(2-4)] that(1)
    by (auto simp: parseSvgDimensions_def)
  have int: "roundClamped x = k" if "positive x" "x = Fin (of_int k)" "k \<le> 50000" for x k
  proof -
    from that(1,2) have "1 \<le> k" by simp
    with that(2,3) show ?thesis by (simp only: roundClamped_integer)
  qed
  show ?thesis
    using fx dm roundClamped_range [OF assms(3)] roundClamped_range [OF assms(4)]
      int [OF assms(3)] int [OF assms(4)]
    by (intro conjI impI) auto
qed

text \<open>
  The markup \<open><svg viewBox="0 0 120 80"><rect/></svg>\<close>: its root element has the one
  attribute \<open>viewBox\<close>, and both paths return \<open>{120, 80}\<close>.
\<close>

theorem parseSvgDimensions_viewBox_witness:
  "parseSvgDimensions
     (FxpParsed (Some \<lparr>fxWidth = None, fxHeight = None,
        fxViewBox = Some (FStr ''0 0 120 80''), fxStyle = None\<rparr>)) DomThrows = (120, 80)
   \<and> parseSvgDimensions FxpMissing
     (DomParsed (Some \<lparr>widthAttr = None, heightAttr = None,
        viewBoxAttr = Some ''0 0 120 80'', styleAttr = None, computedWidth = [],
        computedHeight = [], firstPathBBox = NoDrawable\<rparr>)) = (120, 80)"
proof -
  have parts: "[''0'', ''0'', ''120'', ''80'']
      = filter (\<lambda>part. part \<noteq> []) (splitSpaces ''0 0 120 80'')"
    by code_simp
  have len: "4 \<le> length [''0'', ''0'', ''120'', ''80'']"
    by simp
  have w: "parseFloat ([''0'', ''0'', ''120'', ''80''] ! 2) = Fin (of_int 120)"
    by code_simp
  have h: "parseFloat ([''0'', ''0'', ''120'', ''80''] ! 3) = Fin (of_int 80)"
    by code_simp
  have pw: "positive (parseFloat ([''0'', ''0'', ''120'', ''80''] ! 2))"
    by (simp only: w) simp
  have ph: "positive (parseFloat ([''0'', ''0'', ''120'', ''80''] ! 3))"
    by (simp only: h) simp
  note t = parseSvgDimensions_viewBox [OF parts len pw ph,
      of "\<lparr>fxWidth = None, fxHeight = None, fxViewBox = Some (FStr ''0 0 120 80''),
           fxStyle = None\<rparr>" DomThrows FxpMissing
         "\<lparr>widthAttr = None, heightAttr = None, viewBoxAttr = Some ''0 0 120 80'',
           styleAttr = None, computedWidth = [], computedHeight = [],
           firstPathBBox = NoDrawable\<rparr>" 120 80]
  have rw: "roundClamped (parseFloat ([''0'', ''0'', ''120'', ''80''] ! 2)) = 120"
    using t w by simp
  have rh: "roundClamped (parseFloat ([''0'', ''0'', ''120'', ''80''] ! 3)) = 80"
    using t h by simp
  from t rw rh show ?thesis by simp
qed

end
